theory Spec2Isabelle
  imports Main
begin

section \<open>Python values shared by the two source files\<close>

text \<open>
  Values of the source's \<^verbatim>\<open>Any\<close>-typed dictionary entries (the Docker port map allows an
  integer, \<^verbatim>\<open>None\<close>, a tuple or a list as a value; the JSON body of an HTTP response is a
  dict or a list).  A dict is an association list in insertion order.
\<close>

datatype PyAny =
    PyNone
  | PyBool bool
  | PyInt int
  | PyStr string
  | PyTuple "PyAny list"
  | PyList "PyAny list"
  | PyDict "(string \<times> PyAny) list"

text \<open>
  The exceptions the two files can let escape or catch.  \<open>Exception\<close> stands for any other
  exception derived from Python's \<^verbatim>\<open>Exception\<close> (an HTTP transport error, a validation error);
  interrupts, which \<^verbatim>\<open>except Exception\<close> does not catch, are not modelled.
\<close>

datatype py_error =
    ValueError string
  | KeyError string
  | TypeError string
  | Exception string

section \<open>\<^verbatim>\<open>phi/api/conversation.py\<close>\<close>

text \<open>
  The collaborators imported by \<^verbatim>\<open>conversation.py\<close> (\<^verbatim>\<open>phi_cli_settings\<close>, \<^verbatim>\<open>api\<close>,
  \<^verbatim>\<open>invalid_response\<close>, the pydantic schemas and the \<^verbatim>\<open>httpx\<close> response) are not part of the
  file; each call into them is a field of this record, returning either the exception it
  raises (\<open>Inl\<close>) or its value (\<open>Inr\<close>).
  \<^item> \<open>api_enabled\<close>: \<^verbatim>\<open>phi_cli_settings.api_enabled\<close>;
  \<^item> \<open>Client\<close>: \<^verbatim>\<open>api.Client()\<close> entered by the \<^verbatim>\<open>with\<close> statement, giving the client;
  \<^item> \<open>event_model_dump\<close>, \<open>workspace_model_dump\<close>: \<^verbatim>\<open>model_dump(exclude_none=True)\<close>;
  \<^item> \<open>post\<close>: \<^verbatim>\<open>api_client.post(route, json=...)\<close>;
  \<^item> \<open>invalid_response\<close>: \<^verbatim>\<open>invalid_response(r)\<close>;
  \<^item> \<open>json\<close>: \<^verbatim>\<open>r.json()\<close>;
  \<^item> \<open>model_validate\<close>: \<^verbatim>\<open>ConversationResponseSchema.model_validate(response_json)\<close>, whose
    value the source still compares with \<^verbatim>\<open>None\<close>.
\<close>

record ('ev, 'ws, 'cl, 'resp, 'schema) phi_api =
  api_enabled :: bool
  Client :: "py_error + 'cl"
  event_model_dump :: "'ev \<Rightarrow> py_error + PyAny"
  workspace_model_dump :: "'ws \<Rightarrow> py_error + PyAny"
  post :: "'cl \<Rightarrow> string \<Rightarrow> PyAny \<Rightarrow> py_error + 'resp"
  invalid_response :: "'resp \<Rightarrow> py_error + bool"
  json :: "'resp \<Rightarrow> py_error + PyAny"
  model_validate :: "PyAny \<Rightarrow> py_error + 'schema option"

text \<open>\<^verbatim>\<open>ApiRoutes.CONVERSATION_EVENT\<close>; the spec gives the route as \<^verbatim>\<open>/conversation-event\<close>
  under the API base.\<close>

definition CONVERSATION_EVENT :: string where
  "CONVERSATION_EVENT = ''/conversation-event''"

text \<open>The statements inside \<^verbatim>\<open>try:\<close>, in order; the first exception ends them.\<close>

definition log_conversation_event_try ::
  "('ev, 'ws, 'cl, 'resp, 'schema) phi_api \<Rightarrow> 'cl \<Rightarrow> 'ev \<Rightarrow> 'ws \<Rightarrow> py_error + 'schema option"
where
  "log_conversation_event_try api api_client conversation workspace =
     (case event_model_dump api conversation of
        Inl e \<Rightarrow> Inl e
      | Inr event \<Rightarrow>
     (case workspace_model_dump api workspace of
        Inl e \<Rightarrow> Inl e
      | Inr ws \<Rightarrow>
     (case post api api_client CONVERSATION_EVENT
                (PyDict [(''event'', event), (''workspace'', ws)]) of
        Inl e \<Rightarrow> Inl e
      | Inr r \<Rightarrow>
     (case invalid_response api r of
        Inl e \<Rightarrow> Inl e
      | Inr invalid \<Rightarrow>
         if invalid then Inr None
         else
     (case json api r of
        Inl e \<Rightarrow> Inl e
      | Inr response_json \<Rightarrow>
         if response_json = PyNone then Inr None
         else
     (case model_validate api response_json of
        Inl e \<Rightarrow> Inl e
      | Inr conversation_response \<Rightarrow>
         (case conversation_response of
            Some s \<Rightarrow> Inr (Some s)
          | None \<Rightarrow> Inr None)))))))"

text \<open>
  \<^verbatim>\<open>log_conversation_event\<close>.  The \<^verbatim>\<open>with api.Client()\<close> statement stands outside the
  \<^verbatim>\<open>try\<close>, so an exception of \<open>Client\<close> escapes; every exception of the \<^verbatim>\<open>try\<close> block is
  caught by \<^verbatim>\<open>except Exception\<close>, logged, and control reaches the final \<^verbatim>\<open>return None\<close>.
\<close>

definition log_conversation_event ::
  "('ev, 'ws, 'cl, 'resp, 'schema) phi_api \<Rightarrow> 'ev \<Rightarrow> 'ws \<Rightarrow> py_error + 'schema option"
where
  "log_conversation_event api conversation workspace =
     (if \<not> api_enabled api then Inr None
      else
        (case Client api of
           Inl e \<Rightarrow> Inl e
         | Inr api_client \<Rightarrow>
             (case log_conversation_event_try api api_client conversation workspace of
                Inl e \<Rightarrow> Inr None
              | Inr res \<Rightarrow> Inr res)))"

text \<open>A scenario for the logger: telemetry enabled, every collaborator succeeding.\<close>

definition example_api :: "(string, string, nat, PyAny, string) phi_api" where
  "example_api =
     \<lparr> api_enabled = True,
       Client = Inr 0,
       event_model_dump = (\<lambda>e. Inr (PyDict [(''name'', PyStr e)])),
       workspace_model_dump = (\<lambda>w. Inr (PyDict [(''ws_name'', PyStr w)])),
       post = (\<lambda>cl route body. Inr (PyDict [(''id'', PyInt 1)])),
       invalid_response = (\<lambda>r. Inr False),
       json = (\<lambda>r. Inr r),
       model_validate = (\<lambda>js. Inr (Some ''validated'')) \<rparr>"

section \<open>\<^verbatim>\<open>phidata/app/server/server_base.py\<close>: Python dictionaries, sets and strings\<close>

text \<open>
  A Python \<^verbatim>\<open>dict\<close> keeps its keys in insertion order and holds each key once; it is an
  association list.  \<open>dict_setitem d k v\<close> is \<^verbatim>\<open>d[k] = v\<close>: an existing key keeps its
  position and takes the new value, a new key goes to the end.  \<open>dict_update d other\<close> is
  \<^verbatim>\<open>d.update(other)\<close>: the entries of \<^verbatim>\<open>other\<close> are stored one after the other.
  \<open>dict_literal\<close> is a display \<^verbatim>\<open>{k1: v1, k2: v2, ...}\<close>, which stores its entries from left
  to right.
\<close>

type_synonym 'v dict = "(string \<times> 'v) list"

fun dict_setitem :: "'v dict \<Rightarrow> string \<Rightarrow> 'v \<Rightarrow> 'v dict" where
  "dict_setitem [] k v = [(k, v)]"
| "dict_setitem ((k', v') # d) k v =
     (if k' = k then (k, v) # d else (k', v') # dict_setitem d k v)"

fun dict_update :: "'v dict \<Rightarrow> 'v dict \<Rightarrow> 'v dict" where
  "dict_update d [] = d"
| "dict_update d ((k, v) # other) = dict_update (dict_setitem d k v) other"

definition dict_literal :: "'v dict \<Rightarrow> 'v dict" where
  "dict_literal entries = dict_update [] entries"

definition dict_get :: "'v dict \<Rightarrow> string \<Rightarrow> 'v option" where
  "dict_get d k = map_of d k"

definition dict_keys :: "'v dict \<Rightarrow> string list" where
  "dict_keys d = map fst d"

text \<open>
  \<^verbatim>\<open>x or {}\<close> and \<^verbatim>\<open>x or []\<close> for an optional collection \<open>x\<close>: \<^verbatim>\<open>None\<close> and the empty
  collection are falsy and give a fresh empty collection; a non-empty collection is returned
  itself, so the local name then denotes the very object stored in the field
  (\<open>is_same_object\<close>) and every later \<^verbatim>\<open>append\<close>, \<^verbatim>\<open>insert\<close> or item assignment through
  the local name changes the field too.  \<open>write_back x new\<close> is the field's content after the
  local collection has become \<open>new\<close>.
\<close>

definition or_empty :: "'a list option \<Rightarrow> 'a list" where
  "or_empty x = (case x of None \<Rightarrow> [] | Some xs \<Rightarrow> xs)"

definition is_same_object :: "'a list option \<Rightarrow> bool" where
  "is_same_object x = (case x of None \<Rightarrow> False | Some xs \<Rightarrow> xs \<noteq> [])"

definition write_back :: "'a list option \<Rightarrow> 'a list \<Rightarrow> 'a list option" where
  "write_back x new = (if is_same_object x then Some new else x)"

text \<open>\<^verbatim>\<open>x or y\<close> for an optional string: \<^verbatim>\<open>None\<close> and \<^verbatim>\<open>""\<close> are falsy.\<close>

definition str_truthy :: "string option \<Rightarrow> bool" where
  "str_truthy x = (case x of None \<Rightarrow> False | Some s \<Rightarrow> s \<noteq> [])"

definition str_or :: "string option \<Rightarrow> string \<Rightarrow> string" where
  "str_or x y = (case x of None \<Rightarrow> y | Some s \<Rightarrow> if s = [] then y else s)"

definition str_or_opt :: "string option \<Rightarrow> string option \<Rightarrow> string option" where
  "str_or_opt x y = (if str_truthy x then x else y)"

text \<open>Truth value of an \<^verbatim>\<open>Any\<close>-typed value.\<close>

fun py_truthy :: "PyAny \<Rightarrow> bool" where
  "py_truthy PyNone = False"
| "py_truthy (PyBool b) = b"
| "py_truthy (PyInt i) = (i \<noteq> 0)"
| "py_truthy (PyStr s) = (s \<noteq> [])"
| "py_truthy (PyTuple xs) = (xs \<noteq> [])"
| "py_truthy (PyList xs) = (xs \<noteq> [])"
| "py_truthy (PyDict d) = (d \<noteq> [])"

text \<open>\<^verbatim>\<open>str(b)\<close> for a bool and \<^verbatim>\<open>str(i)\<close> for an int (decimal, with a minus sign).\<close>

definition str_bool :: "bool \<Rightarrow> string" where
  "str_bool b = (if b then ''True'' else ''False'')"

definition digit_char :: "nat \<Rightarrow> char" where
  "digit_char d =
     (if d = 0 then CHR ''0'' else if d = 1 then CHR ''1'' else if d = 2 then CHR ''2''
      else if d = 3 then CHR ''3'' else if d = 4 then CHR ''4'' else if d = 5 then CHR ''5''
      else if d = 6 then CHR ''6'' else if d = 7 then CHR ''7'' else if d = 8 then CHR ''8''
      else CHR ''9'')"

fun str_nat :: "nat \<Rightarrow> string" where
  "str_nat n = (if n < 10 then [digit_char n] else str_nat (n div 10) @ [digit_char (n mod 10)])"

declare str_nat.simps [simp del]

definition str_int :: "int \<Rightarrow> string" where
  "str_int i = (if i < 0 then CHR ''-'' # str_nat (nat (- i)) else str_nat (nat i))"

text \<open>
  A Python \<^verbatim>\<open>set\<close> built by \<^verbatim>\<open>add\<close> alone: a list without repetition.  \<^verbatim>\<open>pop()\<close> raises
  \<^verbatim>\<open>KeyError\<close> on the empty set and otherwise removes and returns some element; the source
  calls it only on a set with at most one element, where the choice is forced.
\<close>

definition set_add :: "'a list \<Rightarrow> 'a \<Rightarrow> 'a list" where
  "set_add s x = (if x \<in> set s then s else s @ [x])"

definition set_pop :: "'a list \<Rightarrow> py_error + ('a \<times> 'a list)" where
  "set_pop s = (case s of [] \<Rightarrow> Inl (KeyError ''pop from an empty set'')
                        | x # xs \<Rightarrow> Inr (x, xs))"

section \<open>The data of \<^verbatim>\<open>server_base.py\<close>\<close>

subsection \<open>Enumerations and values imported from other modules\<close>

text \<open>
  The enumerations are declared in modules outside this file.  The members the source names
  are constructors; any other member is kept by its \<^verbatim>\<open>.value\<close>, so that the branches the
  source writes for it stay reachable.
\<close>

datatype WorkspaceVolumeType = HostPath | EmptyDir | OtherVolumeType string

datatype ImagePullPolicy = IF_NOT_PRESENT | OtherImagePullPolicy string

datatype RestartPolicy = ALWAYS | OtherRestartPolicy string

datatype ServiceType = ServiceType string

datatype VolumeType = EMPTY_DIR | HOST_PATH

text \<open>A \<^verbatim>\<open>pathlib.Path\<close>, as far as the source reads it: \<^verbatim>\<open>str(p)\<close> and \<^verbatim>\<open>p.stem\<close>.\<close>

record PyPath =
  path_str :: string
  stem :: string

text \<open>\<^verbatim>\<open>phidata.types.context.ContainerPathContext\<close>: the path strings inside the container.\<close>

record ContainerPathContext =
  workspace_root :: string
  scripts_dir :: string
  storage_dir :: string
  meta_dir :: string
  products_dir :: string
  notebooks_dir :: string
  workflows_dir :: string
  workspace_parent :: string
  workspace_config_dir :: string
  requirements_file :: string

text \<open>
  What the builders import from other \<^verbatim>\<open>phidata\<close> modules and call: the names of the
  environment variables (\<^verbatim>\<open>phidata.constants\<close>, whose values are not in this file),
  \<^verbatim>\<open>phidata.utils.common.get_default_volume_name\<close>, and \<^verbatim>\<open>Subnet(id=s).get_vpc_id()\<close> of
  \<^verbatim>\<open>phidata.aws.resource.group\<close>, as a function of the subnet id.
\<close>

record phidata_modules =
  PYTHONPATH_ENV_VAR :: string
  PHIDATA_RUNTIME_ENV_VAR :: string
  SCRIPTS_DIR_ENV_VAR :: string
  STORAGE_DIR_ENV_VAR :: string
  META_DIR_ENV_VAR :: string
  PRODUCTS_DIR_ENV_VAR :: string
  NOTEBOOKS_DIR_ENV_VAR :: string
  WORKFLOWS_DIR_ENV_VAR :: string
  WORKSPACE_ROOT_ENV_VAR :: string
  WORKSPACES_MOUNT_ENV_VAR :: string
  WORKSPACE_CONFIG_DIR_ENV_VAR :: string
  get_default_volume_name :: "string \<Rightarrow> string"
  get_vpc_id :: "string \<Rightarrow> string option"

subsection \<open>Docker resources\<close>

text \<open>
  The resource classes are declared outside this file; each is a record of the keyword
  arguments the source passes to its constructor.  HOL record fields share one name space,
  so the fields of a resource class carry the initials of the class as a prefix
  (\<open>dc_ports\<close> is \<^verbatim>\<open>DockerContainer.ports\<close>).
\<close>

record DockerContainer =
  dc_name :: string
  dc_image :: string
  dc_entrypoint :: "PyAny option"
  dc_command :: "PyAny option"
  dc_detach :: bool
  dc_auto_remove :: bool
  dc_healthcheck :: "PyAny dict option"
  dc_hostname :: "string option"
  dc_labels :: "PyAny dict option"
  dc_environment :: "string dict"
  dc_network :: string
  dc_platform :: "string option"
  dc_ports :: "PyAny dict option"
  dc_remove :: bool
  dc_restart_policy :: "PyAny dict option"
  dc_stdin_open :: bool
  dc_tty :: bool
  dc_user :: "PyAny option"
  dc_volumes :: "string dict dict option"
  dc_working_dir :: "string option"
  dc_use_cache :: bool

record DockerNetwork =
  dn_name :: string

record DockerResourceGroup =
  drg_name :: string
  drg_enabled :: bool
  drg_network :: DockerNetwork
  drg_containers :: "DockerContainer list"
  drg_images :: "PyAny list option"

subsection \<open>Kubernetes resources\<close>

text \<open>
  A keyword argument a constructor call leaves out stays at the default of the class, which
  is written \<open>None\<close>.  The five resource kinds the builder only passes through are opaque.
\<close>

type_synonym CreateStorageClass = PyAny
type_synonym CreateCustomObject = PyAny
type_synonym CreateCustomResourceDefinition = PyAny
type_synonym CreatePersistentVolume = PyAny
type_synonym CreatePVC = PyAny

record CreateNamespace =
  cns_ns :: string
  cns_app_name :: string
  cns_labels :: "PyAny dict option"

record CreateServiceAccount =
  csa_sa_name :: string
  csa_app_name :: string
  csa_namespace :: string

record PolicyRule =
  pr_api_groups :: "string list"
  pr_resources :: "string list"
  pr_verbs :: "string list"

record CreateClusterRole =
  ccr_cr_name :: string
  ccr_rules :: "PolicyRule list"
  ccr_app_name :: string
  ccr_labels :: "PyAny dict option"

record CreateClusterRoleBinding =
  ccrb_crb_name :: string
  ccrb_cr_name :: string
  ccrb_service_account_name :: string
  ccrb_app_name :: string
  ccrb_namespace :: string
  ccrb_labels :: "PyAny dict option"

record CreateConfigMap =
  ccm_cm_name :: string
  ccm_app_name :: string
  ccm_namespace :: string
  ccm_data :: "string dict"
  ccm_labels :: "PyAny dict option"

record CreateSecret =
  cs_secret_name :: string
  cs_app_name :: string
  cs_string_data :: "string dict"
  cs_namespace :: string
  cs_labels :: "PyAny dict option"

record HostPathVolumeSource =
  hp_path :: string

record CreateVolume =
  cv_volume_name :: string
  cv_app_name :: string
  cv_mount_path :: string
  cv_volume_type :: VolumeType
  cv_host_path :: "HostPathVolumeSource option"

record CreatePort =
  cp_name :: string
  cp_container_port :: int
  cp_service_port :: int
  cp_target_port :: PyAny

record CreateContainer =
  cc_container_name :: string
  cc_app_name :: string
  cc_image_name :: string
  cc_image_tag :: string
  cc_args :: "PyAny option"
  cc_command :: "PyAny option"
  cc_image_pull_policy :: "ImagePullPolicy option"
  cc_env :: "PyAny dict option"
  cc_envs_from_configmap :: "string list option"
  cc_envs_from_secret :: "string list option"
  cc_ports :: "CreatePort list option"
  cc_volumes :: "CreateVolume list option"
  cc_labels :: "PyAny dict option"

record CreateDeployment =
  cd_deploy_name :: string
  cd_pod_name :: string
  cd_app_name :: string
  cd_namespace :: string
  cd_service_account_name :: "string option"
  cd_replicas :: int
  cd_containers :: "CreateContainer list"
  cd_init_containers :: "CreateContainer list option"
  cd_pod_node_selector :: "string dict option"
  cd_restart_policy :: RestartPolicy
  cd_termination_grace_period_seconds :: "int option"
  cd_volumes :: "CreateVolume list option"
  cd_labels :: "PyAny dict"
  cd_pod_annotations :: "string dict"
  cd_topology_spread_key :: "string option"
  cd_topology_spread_max_skew :: "int option"
  cd_topology_spread_when_unsatisfiable :: "string option"

record CreateService =
  csv_service_name :: string
  csv_app_name :: string
  csv_namespace :: string
  csv_service_account_name :: "string option"
  csv_service_type :: "ServiceType option"
  csv_deployment :: CreateDeployment
  csv_ports :: "CreatePort list option"
  csv_labels :: "PyAny dict"

record CreateK8sResourceGroup =
  krg_name :: string
  krg_enabled :: bool
  krg_ns :: "CreateNamespace option"
  krg_sa :: "CreateServiceAccount option"
  krg_cr :: "CreateClusterRole option"
  krg_crb :: "CreateClusterRoleBinding option"
  krg_secrets :: "CreateSecret list option"
  krg_config_maps :: "CreateConfigMap list option"
  krg_storage_classes :: "CreateStorageClass list option"
  krg_services :: "CreateService list option"
  krg_deployments :: "CreateDeployment list option"
  krg_custom_objects :: "CreateCustomObject list option"
  krg_crds :: "CreateCustomResourceDefinition list option"
  krg_pvs :: "CreatePersistentVolume list option"
  krg_pvcs :: "CreatePVC list option"

subsection \<open>AWS resources\<close>

record EcsCluster =
  ec_name :: string
  ec_ecs_cluster_name :: string
  ec_capacity_providers :: "string list"
  ec_skip_create :: bool
  ec_skip_delete :: bool
  ec_wait_for_creation :: bool
  ec_wait_for_deletion :: bool

record LoadBalancer =
  lb_name :: string
  lb_subnets :: "string list option"
  lb_security_groups :: "string list option"
  lb_skip_create :: bool
  lb_skip_delete :: bool
  lb_wait_for_creation :: bool
  lb_wait_for_deletion :: bool

record TargetGroup =
  tg_name :: string
  tg_port :: int
  tg_protocol :: string
  tg_vpc_id :: "string option"
  tg_target_type :: string
  tg_skip_create :: bool
  tg_skip_delete :: bool
  tg_wait_for_creation :: bool
  tg_wait_for_deletion :: bool

record Listener =
  ls_name :: string
  ls_protocol :: string
  ls_port :: int
  ls_load_balancer :: LoadBalancer
  ls_target_group :: TargetGroup
  ls_skip_create :: bool
  ls_skip_delete :: bool
  ls_wait_for_creation :: bool
  ls_wait_for_deletion :: bool

record EcsContainer =
  ecn_name :: string
  ecn_image :: string
  ecn_port_mappings :: "PyAny dict list"
  ecn_command :: "PyAny option"
  ecn_environment :: "PyAny dict list"
  ecn_log_configuration :: "PyAny dict"
  ecn_skip_create :: bool
  ecn_skip_delete :: bool
  ecn_wait_for_creation :: bool
  ecn_wait_for_deletion :: bool

record EcsTaskDefinition =
  etd_name :: string
  etd_family :: string
  etd_network_mode :: string
  etd_cpu :: string
  etd_memory :: string
  etd_containers :: "EcsContainer list"
  etd_requires_compatibilities :: "string list"
  etd_skip_create :: bool
  etd_skip_delete :: bool
  etd_wait_for_creation :: bool
  etd_wait_for_deletion :: bool

record EcsService =
  es_name :: string
  es_desired_count :: int
  es_launch_type :: string
  es_cluster :: EcsCluster
  es_task_definition :: EcsTaskDefinition
  es_target_group :: TargetGroup
  es_target_container_name :: string
  es_target_container_port :: int
  es_network_configuration :: "PyAny dict"
  es_force_delete :: bool
  es_force_new_deployment :: bool
  es_skip_create :: bool
  es_skip_delete :: bool
  es_wait_for_creation :: bool
  es_wait_for_deletion :: bool

record AwsResourceGroup =
  arg_name :: string
  arg_enabled :: bool
  arg_ecs_clusters :: "EcsCluster list"
  arg_ecs_task_definitions :: "EcsTaskDefinition list"
  arg_ecs_services :: "EcsService list"
  arg_load_balancers :: "LoadBalancer list"
  arg_target_groups :: "TargetGroup list"
  arg_listeners :: "Listener list"

subsection \<open>Build contexts\<close>

text \<open>
  The builders take their context as \<^verbatim>\<open>Any\<close> and test it with \<^verbatim>\<open>is None\<close> and
  \<^verbatim>\<open>isinstance\<close>: the argument is \<^verbatim>\<open>None\<close>, one of the three context classes, or any
  other object.  The fields are those the builders read (prefixed \<open>ctx_\<close>).
\<close>

record DockerBuildContext =
  ctx_network :: string

record K8sBuildContext =
  ctx_namespace :: string
  ctx_service_account_name :: "string option"
  ctx_labels :: "PyAny dict option"

record AwsBuildContext =
  ctx_aws_region :: "string option"
  ctx_aws_profile :: "string option"

datatype build_context =
    NoneContext
  | IsDockerBuildContext DockerBuildContext
  | IsK8sBuildContext K8sBuildContext
  | IsAwsBuildContext AwsBuildContext
  | OtherObject PyAny

subsection \<open>\<^verbatim>\<open>ServerBaseArgs\<close> and \<^verbatim>\<open>ServerBase\<close>\<close>

text \<open>
  \<^verbatim>\<open>self.args\<close>: the options the three builders read, under the names of the constructor's
  parameters (\<^verbatim>\<open>image\<close> is \<open>image_arg\<close>, since \<open>image\<close> is the image of a set in HOL).  The
  options that only the inherited helpers read (\<^verbatim>\<open>env_file\<close>, \<^verbatim>\<open>secrets\<close>,
  \<^verbatim>\<open>secrets_file\<close>, \<^verbatim>\<open>aws_secrets\<close>, the default names) enter through the results of those
  helpers in \<open>ServerBase\<close> below.
\<close>

record ServerBaseArgs =
  name :: string
  enabled :: bool
  image_arg :: "PyAny option"
  image_name :: string
  image_tag :: string
  entrypoint :: "PyAny option"
  command :: "PyAny option"
  install_requirements :: bool
  python_path :: "string option"
  add_python_path :: "string option"
  container_labels :: "PyAny dict option"
  env :: "string dict option"
  open_container_port :: bool
  container_port :: int
  container_port_name :: string
  container_host_port :: int
  mount_workspace :: bool
  workspace_volume_name :: "string option"
  workspace_volume_type :: "WorkspaceVolumeType option"
  workspace_volume_host_path :: "string option"
  create_git_sync_sidecar :: bool
  create_git_sync_init_container :: bool
  git_sync_image_name :: string
  git_sync_image_tag :: string
  git_sync_repo :: "string option"
  git_sync_branch :: "string option"
  git_sync_wait :: "int option"
  container_detach :: bool
  container_auto_remove :: bool
  container_remove :: bool
  container_user :: "PyAny option"
  container_stdin_open :: bool
  container_tty :: bool
  container_healthcheck :: "PyAny dict option"
  container_hostname :: "string option"
  container_platform :: "string option"
  container_working_dir :: "string option"
  container_volumes_docker :: "string dict dict option"
  container_ports_docker :: "PyAny dict option"
  replicas :: int
  secret_name :: "string option"
  configmap_name :: "string option"
  image_pull_policy :: "ImagePullPolicy option"
  pod_annotations :: "string dict option"
  pod_node_selector :: "string dict option"
  deploy_restart_policy :: "RestartPolicy option"
  deploy_labels :: "PyAny dict option"
  termination_grace_period_seconds :: "int option"
  topology_spread_key :: "string option"
  topology_spread_max_skew :: "int option"
  topology_spread_when_unsatisfiable :: "string option"
  create_service :: bool
  service_type :: "ServiceType option"
  service_port :: int
  service_target_port :: "PyAny option"
  service_labels :: "PyAny dict option"
  use_rbac :: bool
  ns_name :: "string option"
  namespace :: "CreateNamespace option"
  sa_name :: "string option"
  service_account :: "CreateServiceAccount option"
  cr_name :: "string option"
  cluster_role :: "CreateClusterRole option"
  crb_name :: "string option"
  cluster_role_binding :: "CreateClusterRoleBinding option"
  extra_secrets :: "CreateSecret list option"
  extra_configmaps :: "CreateConfigMap list option"
  extra_services :: "CreateService list option"
  extra_deployments :: "CreateDeployment list option"
  extra_pvs :: "CreatePersistentVolume list option"
  extra_pvcs :: "CreatePVC list option"
  extra_containers :: "CreateContainer list option"
  extra_init_containers :: "CreateContainer list option"
  extra_ports :: "CreatePort list option"
  extra_volumes :: "CreateVolume list option"
  extra_storage_classes :: "CreateStorageClass list option"
  extra_custom_objects :: "CreateCustomObject list option"
  extra_crds :: "CreateCustomResourceDefinition list option"
  ecs_cluster :: "EcsCluster option"
  ecs_launch_type :: string
  ecs_task_cpu :: string
  ecs_task_memory :: string
  ecs_service_count :: int
  assign_public_ip :: bool
  elb :: "LoadBalancer option"
  aws_subnets :: "string list option"
  aws_security_groups :: "string list option"
  print_env_on_load :: bool
  skip_create :: bool
  skip_delete :: bool
  wait_for_creation :: bool
  wait_for_deletion :: bool
  use_cache :: bool

text \<open>
  \<^verbatim>\<open>self\<close>: the arguments together with what \<^verbatim>\<open>ServerBase\<close> inherits from \<^verbatim>\<open>PhidataApp\<close>,
  a class outside this file.  Each inherited property or method the builders use is a field
  holding its value for this object: \<^verbatim>\<open>self.workspace_root_path\<close>,
  \<^verbatim>\<open>self.get_container_paths(...)\<close> as a function of its optional argument
  \<^verbatim>\<open>add_ws_name_to_container_path\<close> (\<open>None\<close> when the call passes none),
  \<^verbatim>\<open>self.get_env_data()\<close>, \<^verbatim>\<open>self.get_secret_data()\<close>, the name getters,
  \<^verbatim>\<open>self.aws_region\<close> and \<^verbatim>\<open>self.enabled\<close> (\<open>self_enabled\<close>).  \<open>aws_env_vars\<close> holds the
  variables that \<^verbatim>\<open>self.set_aws_env_vars\<close> writes.
\<close>

record ServerBase =
  args :: ServerBaseArgs
  self_enabled :: bool
  workspace_root_path :: "PyPath option"
  get_container_paths :: "bool option \<Rightarrow> ContainerPathContext option"
  aws_region :: "string option"
  aws_env_vars :: "string dict"
  get_env_data :: "string dict option"
  get_secret_data :: "string dict option"
  get_container_name :: string
  get_image_str :: string
  get_container_restart_policy_docker :: "PyAny dict option"
  get_container_port :: int
  get_sa_name :: string
  get_cr_name :: string
  get_crb_name :: string
  get_configmap_name :: string
  get_secret_name :: string
  get_deploy_name :: string
  get_pod_name :: string
  get_service_name :: string

section \<open>The container environment\<close>

text \<open>
  The Docker and Kubernetes builders compute \<^verbatim>\<open>python_path\<close> the same way:
  \<^verbatim>\<open>self.args.python_path\<close>, or else the workspace root followed by
  \<^verbatim>\<open>:add_python_path\<close> when that option is a non-empty string.
\<close>

definition container_python_path :: "ServerBaseArgs \<Rightarrow> ContainerPathContext \<Rightarrow> string" where
  "container_python_path a container_paths =
     (case python_path a of
        Some p \<Rightarrow> p
      | None \<Rightarrow>
          workspace_root container_paths @
          (case add_python_path a of
             None \<Rightarrow> ''''
           | Some p \<Rightarrow> if p = [] then '''' else '':'' @ p))"

text \<open>
  The entries of the \<^verbatim>\<open>container_env\<close> display that the three builders share, in the order
  of the source; \<open>runtime\<close> is \<^verbatim>\<open>"docker"\<close>, \<^verbatim>\<open>"kubernetes"\<close> or \<^verbatim>\<open>"ecs"\<close>.  The Docker
  and Kubernetes builders put the \<^verbatim>\<open>PYTHONPATH\<close> entry in front; the AWS builder has it
  commented out.
\<close>

definition runtime_env_entries ::
  "phidata_modules \<Rightarrow> ServerBaseArgs \<Rightarrow> ContainerPathContext \<Rightarrow> string \<Rightarrow> string dict"
where
  "runtime_env_entries m a container_paths runtime =
     [ (PHIDATA_RUNTIME_ENV_VAR m, runtime),
       (SCRIPTS_DIR_ENV_VAR m, scripts_dir container_paths),
       (STORAGE_DIR_ENV_VAR m, storage_dir container_paths),
       (META_DIR_ENV_VAR m, meta_dir container_paths),
       (PRODUCTS_DIR_ENV_VAR m, products_dir container_paths),
       (NOTEBOOKS_DIR_ENV_VAR m, notebooks_dir container_paths),
       (WORKFLOWS_DIR_ENV_VAR m, workflows_dir container_paths),
       (WORKSPACE_ROOT_ENV_VAR m, workspace_root container_paths),
       (WORKSPACES_MOUNT_ENV_VAR m, workspace_parent container_paths),
       (WORKSPACE_CONFIG_DIR_ENV_VAR m, workspace_config_dir container_paths),
       (''INSTALL_REQUIREMENTS'', str_bool (install_requirements a)),
       (''REQUIREMENTS_FILE_PATH'', requirements_file container_paths),
       (''MOUNT_WORKSPACE'', str_bool (mount_workspace a)),
       (''PRINT_ENV_ON_LOAD'', str_bool (print_env_on_load a)) ]"

definition python_runtime_env ::
  "phidata_modules \<Rightarrow> ServerBaseArgs \<Rightarrow> ContainerPathContext \<Rightarrow> string \<Rightarrow> string dict"
where
  "python_runtime_env m a container_paths runtime =
     dict_literal ((PYTHONPATH_ENV_VAR m, container_python_path a container_paths)
                   # runtime_env_entries m a container_paths runtime)"

text \<open>
  Modelled from the spec: \<^verbatim>\<open>PhidataApp.set_aws_env_vars\<close> is not in this file.  By section
  4.2 of the specification it adds the AWS-derived variables (profile and region, if
  configured) to the dict it is given, overwriting keys it also defines.
\<close>

definition set_aws_env_vars :: "ServerBase \<Rightarrow> string dict \<Rightarrow> string dict" where
  "set_aws_env_vars self env_dict = dict_update env_dict (aws_env_vars self)"

text \<open>\<^verbatim>\<open>if d is not None: container_env.update(d)\<close>.\<close>

definition update_if_not_None :: "'v dict \<Rightarrow> 'v dict option \<Rightarrow> 'v dict" where
  "update_if_not_None d other = (case other of None \<Rightarrow> d | Some o' \<Rightarrow> dict_update d o')"

text \<open>
  Modelled from the spec: \<^verbatim>\<open>PhidataApp.set_container_env\<close> is not in this file.  By section
  4.2 of the specification the sources after the AWS variables are, from lowest to highest
  precedence, the variables of the env file, those of the secrets file or store, and the
  inline maps of the configuration, each overwriting the keys it also defines.  The env file
  and the secrets reach a builder as \<^verbatim>\<open>get_env_data()\<close> and \<^verbatim>\<open>get_secret_data()\<close>, as they
  do in \<^verbatim>\<open>get_k8s_rg\<close>; the inline map is \<^verbatim>\<open>self.args.env\<close>.
\<close>

definition set_container_env :: "ServerBase \<Rightarrow> string dict \<Rightarrow> string dict" where
  "set_container_env self container_env =
     update_if_not_None
       (update_if_not_None
          (update_if_not_None container_env (get_env_data self))
          (get_secret_data self))
       (env (args self))"

section \<open>Docker resources: \<^verbatim>\<open>get_docker_rg\<close>\<close>

text \<open>
  The default name of the workspace volume.  \<^verbatim>\<open>workspace_name\<close> is a \<^verbatim>\<open>Path.stem\<close>, a
  string, so the source's test \<^verbatim>\<open>workspace_name is not None\<close> holds and the name is built
  from \<^verbatim>\<open>f"spark-{workspace_name}-ws"\<close>.
\<close>

definition workspace_volume_name_or_default ::
  "phidata_modules \<Rightarrow> ServerBaseArgs \<Rightarrow> string \<Rightarrow> string"
where
  "workspace_volume_name_or_default m a workspace_name =
     (case workspace_volume_name a of
        Some n \<Rightarrow> n
      | None \<Rightarrow> get_default_volume_name m (''spark-'' @ workspace_name @ ''-ws''))"

text \<open>
  \<^verbatim>\<open># Container Volumes\<close>: the dict \<^verbatim>\<open>container_volumes\<close> after the workspace volume has
  been stored in it, or \<open>None\<close> where the source logs \<^verbatim>\<open>not supported\<close> and returns
  \<^verbatim>\<open>None\<close>.
\<close>

definition docker_container_volumes ::
  "phidata_modules \<Rightarrow> ServerBase \<Rightarrow> PyPath \<Rightarrow> ContainerPathContext \<Rightarrow> string dict dict option"
where
  "docker_container_volumes m self root_path container_paths =
     (let a = args self;
          container_volumes = or_empty (container_volumes_docker a);
          workspace_name = stem root_path;
          bind = [(''bind'', workspace_root container_paths), (''mode'', ''rw'')];
          host_path_mount =
            dict_setitem container_volumes
              (str_or (workspace_volume_host_path a) (path_str root_path)) bind
      in if mount_workspace a then
           (case workspace_volume_type a of
              None \<Rightarrow> Some host_path_mount
            | Some HostPath \<Rightarrow> Some host_path_mount
            | Some EmptyDir \<Rightarrow>
                Some (dict_setitem container_volumes
                        (workspace_volume_name_or_default m a workspace_name) bind)
            | Some (OtherVolumeType v) \<Rightarrow> None)
         else Some container_volumes)"

text \<open>\<^verbatim>\<open># Container Ports\<close>: the dict \<^verbatim>\<open>container_ports\<close> handed to the container.\<close>

definition docker_container_ports :: "ServerBaseArgs \<Rightarrow> PyAny dict" where
  "docker_container_ports a =
     (let container_ports = or_empty (container_ports_docker a)
      in if open_container_port a
         then dict_setitem container_ports (str_int (container_port a))
                (PyInt (container_host_port a))
         else container_ports)"

text \<open>\<^verbatim>\<open>x if len(x) > 0 else None\<close>.\<close>

definition if_nonempty :: "'a list \<Rightarrow> 'a list option" where
  "if_nonempty xs = (if length xs > 0 then Some xs else None)"

text \<open>
  \<^verbatim>\<open>get_docker_rg\<close>.  The result is the returned resource group (\<open>None\<close> for
  \<^verbatim>\<open>return None\<close>) and \<^verbatim>\<open>self\<close> as the call leaves it: \<^verbatim>\<open>container_volumes\<close> and
  \<^verbatim>\<open>container_ports\<close> are the dicts stored in \<^verbatim>\<open>self.args\<close> whenever those are non-empty,
  and the item assignments then change the arguments.
\<close>

definition get_docker_rg ::
  "phidata_modules \<Rightarrow> ServerBase \<Rightarrow> build_context
     \<Rightarrow> DockerResourceGroup option \<times> ServerBase"
where
  "get_docker_rg m self docker_build_context =
     (let a = args self; app_name = name a in
      case docker_build_context of
        IsDockerBuildContext ctx \<Rightarrow>
          (case workspace_root_path self of
             None \<Rightarrow> (None, self)
           | Some root_path \<Rightarrow>
          (case get_container_paths self None of
             None \<Rightarrow> (None, self)
           | Some container_paths \<Rightarrow>
          (let container_env =
                 set_container_env self
                   (set_aws_env_vars self
                      (python_runtime_env m a container_paths ''docker''))
           in case docker_container_volumes m self root_path container_paths of
             None \<Rightarrow> (None, self)
           | Some container_volumes \<Rightarrow>
          (let container_ports = docker_container_ports a;
               docker_container =
                 \<lparr> dc_name = get_container_name self,
                   dc_image = get_image_str self,
                   dc_entrypoint = entrypoint a,
                   dc_command = command a,
                   dc_detach = container_detach a,
                   dc_auto_remove = container_auto_remove a,
                   dc_healthcheck = container_healthcheck a,
                   dc_hostname = container_hostname a,
                   dc_labels = container_labels a,
                   dc_environment = container_env,
                   dc_network = ctx_network ctx,
                   dc_platform = container_platform a,
                   dc_ports = if_nonempty container_ports,
                   dc_remove = container_remove a,
                   dc_restart_policy = get_container_restart_policy_docker self,
                   dc_stdin_open = container_stdin_open a,
                   dc_tty = container_tty a,
                   dc_user = container_user a,
                   dc_volumes = if_nonempty container_volumes,
                   dc_working_dir = container_working_dir a,
                   dc_use_cache = use_cache a \<rparr>;
               docker_rg =
                 \<lparr> drg_name = app_name,
                   drg_enabled = enabled a,
                   drg_network = \<lparr> dn_name = ctx_network ctx \<rparr>,
                   drg_containers = [docker_container],
                   drg_images =
                     (case image_arg a of
                        None \<Rightarrow> None
                      | Some i \<Rightarrow> if py_truthy i then Some [i] else None) \<rparr>
           in (Some docker_rg,
               self\<lparr> args := a
                 \<lparr> container_volumes_docker :=
                     write_back (container_volumes_docker a) container_volumes,
                   container_ports_docker :=
                     write_back (container_ports_docker a) container_ports \<rparr> \<rparr>)))))
      | _ \<Rightarrow> (None, self))"

section \<open>Kubernetes resources: \<^verbatim>\<open>get_k8s_rg\<close>\<close>

text \<open>
  \<^verbatim>\<open># -*- Use K8s RBAC\<close>.  The result is \<^verbatim>\<open>(ns, sa, cr, crb, ns_name, sa_name)\<close> as they
  stand after the \<^verbatim>\<open>if self.args.use_rbac:\<close> block.
\<close>

definition default_policy_rules :: "PolicyRule list" where
  "default_policy_rules =
     [ \<lparr> pr_api_groups = [''''],
         pr_resources = [''pods'', ''secrets'', ''configmaps''],
         pr_verbs = [''get'', ''list'', ''watch'', ''create'', ''update'', ''patch'', ''delete''] \<rparr>,
       \<lparr> pr_api_groups = [''''],
         pr_resources = [''pods/logs''],
         pr_verbs = [''get'', ''list''] \<rparr> ]"

definition k8s_rbac ::
  "ServerBase \<Rightarrow> K8sBuildContext \<Rightarrow>
     CreateNamespace option \<times> CreateServiceAccount option \<times> CreateClusterRole option
       \<times> CreateClusterRoleBinding option \<times> string \<times> string option"
where
  "k8s_rbac self ctx =
     (let a = args self;
          app_name = name a;
          ns_name0 = str_or (ns_name a) (ctx_namespace ctx);
          sa_name0 = str_or_opt (sa_name a) (ctx_service_account_name ctx);
          common_labels = ctx_labels ctx
      in if use_rbac a then
           (let ns = (case namespace a of
                        Some n \<Rightarrow> n
                      | None \<Rightarrow> \<lparr> cns_ns = ns_name0, cns_app_name = app_name,
                                  cns_labels = common_labels \<rparr>);
                ns_name1 = cns_ns ns;
                sa = (case service_account a of
                        Some s \<Rightarrow> s
                      | None \<Rightarrow> \<lparr> csa_sa_name = str_or sa_name0 (get_sa_name self),
                                  csa_app_name = app_name,
                                  csa_namespace = ns_name1 \<rparr>);
                cr = (case cluster_role a of
                        Some c \<Rightarrow> c
                      | None \<Rightarrow> \<lparr> ccr_cr_name = str_or (cr_name a) (get_cr_name self),
                                  ccr_rules = default_policy_rules,
                                  ccr_app_name = app_name,
                                  ccr_labels = common_labels \<rparr>);
                crb = (case cluster_role_binding a of
                         Some c \<Rightarrow> c
                       | None \<Rightarrow> \<lparr> ccrb_crb_name = str_or (crb_name a) (get_crb_name self),
                                   ccrb_cr_name = ccr_cr_name cr,
                                   ccrb_service_account_name = csa_sa_name sa,
                                   ccrb_app_name = app_name,
                                   ccrb_namespace = ns_name1,
                                   ccrb_labels = common_labels \<rparr>)
            in (Some ns, Some sa, Some cr, Some crb, ns_name1, Some (csa_sa_name sa)))
         else (namespace a, service_account a, cluster_role a, cluster_role_binding a,
               ns_name0, sa_name0))"

text \<open>
  \<^verbatim>\<open># Container Environment\<close> of \<^verbatim>\<open>get_k8s_rg\<close>: the display, then
  \<^verbatim>\<open>set_aws_env_vars\<close>, then \<^verbatim>\<open>update\<close> with the env file's data, then \<^verbatim>\<open>update\<close> with
  \<^verbatim>\<open>self.args.env\<close>.
\<close>

definition k8s_container_env ::
  "phidata_modules \<Rightarrow> ServerBase \<Rightarrow> ContainerPathContext \<Rightarrow> string dict"
where
  "k8s_container_env m self container_paths =
     update_if_not_None
       (update_if_not_None
          (set_aws_env_vars self
             (python_runtime_env m (args self) container_paths ''kubernetes''))
          (get_env_data self))
       (env (args self))"

text \<open>\<^verbatim>\<open>[cm.cm_name for cm in config_maps] if len(config_maps) > 0 else None\<close>.\<close>

definition names_if_nonempty :: "('a \<Rightarrow> string) \<Rightarrow> 'a list \<Rightarrow> string list option" where
  "names_if_nonempty f xs = (if length xs > 0 then Some (map f xs) else None)"

text \<open>The git-sync sidecar and its init container.\<close>

definition git_sync_env ::
  "ServerBaseArgs \<Rightarrow> string \<Rightarrow> string \<Rightarrow> string \<Rightarrow> PyAny dict"
where
  "git_sync_env a repo workspace_parent_container_path_str workspace_name =
     (let e0 = dict_literal
                 [ (''GIT_SYNC_REPO'', PyStr repo),
                   (''GIT_SYNC_ROOT'', PyStr workspace_parent_container_path_str),
                   (''GIT_SYNC_DEST'', PyStr workspace_name) ];
          e1 = (case git_sync_branch a of
                  None \<Rightarrow> e0
                | Some b \<Rightarrow> dict_setitem e0 ''GIT_SYNC_BRANCH'' (PyStr b))
      in case git_sync_wait a of
           None \<Rightarrow> e1
         | Some w \<Rightarrow> dict_setitem e1 ''GIT_SYNC_WAIT'' (PyStr (str_int w)))"

definition git_sync_container ::
  "ServerBaseArgs \<Rightarrow> PyAny dict \<Rightarrow> CreateConfigMap list \<Rightarrow> CreateSecret list
     \<Rightarrow> CreateVolume \<Rightarrow> CreateContainer"
where
  "git_sync_container a sync_env config_maps secrets workspace_volume =
     \<lparr> cc_container_name = ''git-sync'',
       cc_app_name = name a,
       cc_image_name = git_sync_image_name a,
       cc_image_tag = git_sync_image_tag a,
       cc_args = None,
       cc_command = None,
       cc_image_pull_policy = None,
       cc_env = Some sync_env,
       cc_envs_from_configmap = names_if_nonempty ccm_cm_name config_maps,
       cc_envs_from_secret = names_if_nonempty cs_secret_name secrets,
       cc_ports = None,
       cc_volumes = Some [workspace_volume],
       cc_labels = None \<rparr>"

definition git_sync_init_container :: "CreateContainer \<Rightarrow> PyAny dict \<Rightarrow> CreateContainer" where
  "git_sync_init_container sidecar sync_env =
     \<lparr> cc_container_name = ''git-sync-init'',
       cc_app_name = cc_app_name sidecar,
       cc_image_name = cc_image_name sidecar,
       cc_image_tag = cc_image_tag sidecar,
       cc_args = None,
       cc_command = None,
       cc_image_pull_policy = None,
       cc_env = Some (dict_update (dict_literal [(''GIT_SYNC_ONE_TIME'', PyBool True)]) sync_env),
       cc_envs_from_configmap = cc_envs_from_configmap sidecar,
       cc_envs_from_secret = cc_envs_from_secret sidecar,
       cc_ports = None,
       cc_volumes = cc_volumes sidecar,
       cc_labels = None \<rparr>"

text \<open>
  \<^verbatim>\<open># Container Volumes\<close> of \<^verbatim>\<open>get_k8s_rg\<close>: the lists \<^verbatim>\<open>volumes\<close>, \<^verbatim>\<open>containers\<close> and
  \<^verbatim>\<open>init_containers\<close> after the block, from their contents before it.  With
  \<^verbatim>\<open>create_git_sync_sidecar\<close> set and \<^verbatim>\<open>git_sync_repo\<close> \<^verbatim>\<open>None\<close> the source logs
  \<^verbatim>\<open>GIT_SYNC_REPO invalid\<close> and goes on.
\<close>

definition k8s_workspace_volume ::
  "phidata_modules \<Rightarrow> ServerBase \<Rightarrow> PyPath \<Rightarrow> ContainerPathContext
     \<Rightarrow> CreateConfigMap list \<Rightarrow> CreateSecret list
     \<Rightarrow> CreateVolume list \<Rightarrow> CreateContainer list \<Rightarrow> CreateContainer list
     \<Rightarrow> CreateVolume list \<times> CreateContainer list \<times> CreateContainer list"
where
  "k8s_workspace_volume m self root_path container_paths config_maps secrets
       volumes containers init_containers =
     (let a = args self;
          app_name = name a;
          workspace_name = stem root_path
      in if mount_workspace a then
           (let volume_name = workspace_volume_name_or_default m a workspace_name
            in if workspace_volume_type a = None \<or> workspace_volume_type a = Some EmptyDir then
                 (let workspace_parent_container_path_str = workspace_parent container_paths;
                      workspace_volume =
                        \<lparr> cv_volume_name = volume_name,
                          cv_app_name = app_name,
                          cv_mount_path = workspace_parent_container_path_str,
                          cv_volume_type = EMPTY_DIR,
                          cv_host_path = None \<rparr>;
                      volumes1 = volumes @ [workspace_volume]
                  in if create_git_sync_sidecar a then
                       (case git_sync_repo a of
                          Some repo \<Rightarrow>
                            (let sync_env = git_sync_env a repo
                                   workspace_parent_container_path_str workspace_name;
                                 sidecar = git_sync_container a sync_env config_maps secrets
                                   workspace_volume;
                                 containers1 = containers @ [sidecar]
                             in if create_git_sync_init_container a then
                                  (volumes1, containers1,
                                   init_containers @ [git_sync_init_container sidecar sync_env])
                                else (volumes1, containers1, init_containers))
                        | None \<Rightarrow> (volumes1, containers, init_containers))
                     else (volumes1, containers, init_containers))
               else if workspace_volume_type a = Some HostPath then
                 (volumes @
                    [ \<lparr> cv_volume_name = volume_name,
                        cv_app_name = app_name,
                        cv_mount_path = workspace_root container_paths,
                        cv_volume_type = HOST_PATH,
                        cv_host_path = Some \<lparr> hp_path = path_str root_path \<rparr> \<rparr> ],
                  containers, init_containers)
               else (volumes, containers, init_containers))
         else (volumes, containers, init_containers))"

text \<open>\<^verbatim>\<open>[x] if isinstance(x, str) else x\<close>.\<close>

definition str_as_list :: "PyAny option \<Rightarrow> PyAny option" where
  "str_as_list x = (case x of Some (PyStr s) \<Rightarrow> Some (PyList [PyStr s]) | _ \<Rightarrow> x)"

text \<open>\<^verbatim>\<open>self.args.service_target_port or self.args.container_port_name\<close>.\<close>

definition target_port_or_name :: "ServerBaseArgs \<Rightarrow> PyAny" where
  "target_port_or_name a =
     (case service_target_port a of
        None \<Rightarrow> PyStr (container_port_name a)
      | Some p \<Rightarrow> if py_truthy p then p else PyStr (container_port_name a))"

definition default_container_annotation :: string where
  "default_container_annotation = ''kubectl.kubernetes.io/default-container''"

text \<open>
  The body of \<^verbatim>\<open>get_k8s_rg\<close> after its three guards.  Each local variable of the source
  is a function of the inputs, giving the value the variable has when the
  \<^verbatim>\<open>CreateK8sResourceGroup\<close> is built.
  \<^item> Each of the lists \<^verbatim>\<open>secrets\<close>, \<^verbatim>\<open>config_maps\<close>, \<^verbatim>\<open>services\<close>, \<^verbatim>\<open>deployments\<close>,
    \<^verbatim>\<open>containers\<close>, \<^verbatim>\<open>init_containers\<close>, \<^verbatim>\<open>ports\<close> and \<^verbatim>\<open>volumes\<close> is
    \<^verbatim>\<open>self.args.extra_... or []\<close>: the list stored in the arguments when that is non-empty,
    and then \<^verbatim>\<open>append\<close> and \<^verbatim>\<open>insert\<close> change the arguments.
  \<^item> \<^verbatim>\<open>container_labels\<close>, \<^verbatim>\<open>deploy_labels\<close> and \<^verbatim>\<open>service_labels\<close> are each
    \<^verbatim>\<open>common_labels or {}\<close>: the dict \<^verbatim>\<open>k8s_build_context.labels\<close> itself when that is
    non-empty, so the three \<^verbatim>\<open>update\<close> calls then accumulate in the context's dict
    (\<open>k8s_labels1\<close>, \<open>k8s_labels2\<close>, \<open>k8s_labels3\<close> are its contents after each).
  \<^item> A resource holds the value its constructor was given when it was called.
\<close>

definition k8s_ns :: "ServerBase \<Rightarrow> K8sBuildContext \<Rightarrow> CreateNamespace option" where
  "k8s_ns self ctx =
     (case k8s_rbac self ctx of (ns, sa, cr, crb, ns_name', sa_name') \<Rightarrow> ns)"

definition k8s_sa :: "ServerBase \<Rightarrow> K8sBuildContext \<Rightarrow> CreateServiceAccount option" where
  "k8s_sa self ctx =
     (case k8s_rbac self ctx of (ns, sa, cr, crb, ns_name', sa_name') \<Rightarrow> sa)"

definition k8s_cr :: "ServerBase \<Rightarrow> K8sBuildContext \<Rightarrow> CreateClusterRole option" where
  "k8s_cr self ctx =
     (case k8s_rbac self ctx of (ns, sa, cr, crb, ns_name', sa_name') \<Rightarrow> cr)"

definition k8s_crb :: "ServerBase \<Rightarrow> K8sBuildContext \<Rightarrow> CreateClusterRoleBinding option" where
  "k8s_crb self ctx =
     (case k8s_rbac self ctx of (ns, sa, cr, crb, ns_name', sa_name') \<Rightarrow> crb)"

definition k8s_ns_name :: "ServerBase \<Rightarrow> K8sBuildContext \<Rightarrow> string" where
  "k8s_ns_name self ctx =
     (case k8s_rbac self ctx of (ns, sa, cr, crb, ns_name', sa_name') \<Rightarrow> ns_name')"

definition k8s_sa_name :: "ServerBase \<Rightarrow> K8sBuildContext \<Rightarrow> string option" where
  "k8s_sa_name self ctx =
     (case k8s_rbac self ctx of (ns, sa, cr, crb, ns_name', sa_name') \<Rightarrow> sa_name')"

definition k8s_container_env_cm ::
  "phidata_modules \<Rightarrow> ServerBase \<Rightarrow> K8sBuildContext \<Rightarrow> ContainerPathContext \<Rightarrow> CreateConfigMap"
where
  "k8s_container_env_cm m self ctx container_paths =
     \<lparr> ccm_cm_name = str_or (configmap_name (args self)) (get_configmap_name self),
       ccm_app_name = name (args self),
       ccm_namespace = k8s_ns_name self ctx,
       ccm_data = k8s_container_env m self container_paths,
       ccm_labels = ctx_labels ctx \<rparr>"

definition k8s_config_maps ::
  "phidata_modules \<Rightarrow> ServerBase \<Rightarrow> K8sBuildContext \<Rightarrow> ContainerPathContext
     \<Rightarrow> CreateConfigMap list"
where
  "k8s_config_maps m self ctx container_paths =
     or_empty (extra_configmaps (args self)) @ [k8s_container_env_cm m self ctx container_paths]"

definition k8s_secrets :: "ServerBase \<Rightarrow> K8sBuildContext \<Rightarrow> CreateSecret list" where
  "k8s_secrets self ctx =
     (case get_secret_data self of
        None \<Rightarrow> or_empty (extra_secrets (args self))
      | Some secret_data \<Rightarrow>
          or_empty (extra_secrets (args self)) @
            [ \<lparr> cs_secret_name = str_or (secret_name (args self)) (get_secret_name self),
                cs_app_name = name (args self),
                cs_string_data = secret_data,
                cs_namespace = k8s_ns_name self ctx,
                cs_labels = ctx_labels ctx \<rparr> ])"

definition k8s_volumes_containers ::
  "phidata_modules \<Rightarrow> ServerBase \<Rightarrow> K8sBuildContext \<Rightarrow> PyPath \<Rightarrow> ContainerPathContext
     \<Rightarrow> CreateVolume list \<times> CreateContainer list \<times> CreateContainer list"
where
  "k8s_volumes_containers m self ctx root_path container_paths =
     k8s_workspace_volume m self root_path container_paths
       (k8s_config_maps m self ctx container_paths) (k8s_secrets self ctx)
       (or_empty (extra_volumes (args self)))
       (or_empty (extra_containers (args self)))
       (or_empty (extra_init_containers (args self)))"

definition k8s_volumes ::
  "phidata_modules \<Rightarrow> ServerBase \<Rightarrow> K8sBuildContext \<Rightarrow> PyPath \<Rightarrow> ContainerPathContext
     \<Rightarrow> CreateVolume list"
where
  "k8s_volumes m self ctx root_path container_paths =
     fst (k8s_volumes_containers m self ctx root_path container_paths)"

definition k8s_init_containers ::
  "phidata_modules \<Rightarrow> ServerBase \<Rightarrow> K8sBuildContext \<Rightarrow> PyPath \<Rightarrow> ContainerPathContext
     \<Rightarrow> CreateContainer list"
where
  "k8s_init_containers m self ctx root_path container_paths =
     snd (snd (k8s_volumes_containers m self ctx root_path container_paths))"

text \<open>\<^verbatim>\<open># Create the ports to open\<close>.\<close>

definition k8s_ports :: "ServerBaseArgs \<Rightarrow> CreatePort list" where
  "k8s_ports a =
     (if open_container_port a
      then or_empty (extra_ports a) @
             [ \<lparr> cp_name = container_port_name a,
                 cp_container_port = container_port a,
                 cp_service_port = service_port a,
                 cp_target_port = target_port_or_name a \<rparr> ]
      else or_empty (extra_ports a))"

definition k8s_container_labels :: "ServerBase \<Rightarrow> K8sBuildContext \<Rightarrow> PyAny dict" where
  "k8s_container_labels self ctx =
     update_if_not_None (or_empty (ctx_labels ctx)) (container_labels (args self))"

definition k8s_labels1 :: "ServerBase \<Rightarrow> K8sBuildContext \<Rightarrow> PyAny dict option" where
  "k8s_labels1 self ctx = write_back (ctx_labels ctx) (k8s_container_labels self ctx)"

text \<open>\<^verbatim>\<open># Create the Spark container\<close>, which \<^verbatim>\<open>containers.insert(0, ...)\<close> puts first.\<close>

definition k8s_spark_container ::
  "phidata_modules \<Rightarrow> ServerBase \<Rightarrow> K8sBuildContext \<Rightarrow> PyPath \<Rightarrow> ContainerPathContext
     \<Rightarrow> CreateContainer"
where
  "k8s_spark_container m self ctx root_path container_paths =
     \<lparr> cc_container_name = get_container_name self,
       cc_app_name = name (args self),
       cc_image_name = image_name (args self),
       cc_image_tag = image_tag (args self),
       cc_args = str_as_list (command (args self)),
       cc_command = str_as_list (entrypoint (args self)),
       cc_image_pull_policy =
         Some (case image_pull_policy (args self) of Some p \<Rightarrow> p | None \<Rightarrow> IF_NOT_PRESENT),
       cc_env = None,
       cc_envs_from_configmap =
         names_if_nonempty ccm_cm_name (k8s_config_maps m self ctx container_paths),
       cc_envs_from_secret = names_if_nonempty cs_secret_name (k8s_secrets self ctx),
       cc_ports = if_nonempty (k8s_ports (args self)),
       cc_volumes = if_nonempty (k8s_volumes m self ctx root_path container_paths),
       cc_labels = Some (k8s_container_labels self ctx) \<rparr>"

definition k8s_containers ::
  "phidata_modules \<Rightarrow> ServerBase \<Rightarrow> K8sBuildContext \<Rightarrow> PyPath \<Rightarrow> ContainerPathContext
     \<Rightarrow> CreateContainer list"
where
  "k8s_containers m self ctx root_path container_paths =
     k8s_spark_container m self ctx root_path container_paths
       # fst (snd (k8s_volumes_containers m self ctx root_path container_paths))"

text \<open>\<^verbatim>\<open># Set default container for kubectl commands\<close>.\<close>

definition k8s_pod_annotations ::
  "phidata_modules \<Rightarrow> ServerBase \<Rightarrow> K8sBuildContext \<Rightarrow> PyPath \<Rightarrow> ContainerPathContext
     \<Rightarrow> string dict"
where
  "k8s_pod_annotations m self ctx root_path container_paths =
     update_if_not_None
       (dict_literal
          [(default_container_annotation,
            cc_container_name (k8s_spark_container m self ctx root_path container_paths))])
       (pod_annotations (args self))"

definition k8s_deploy_labels :: "ServerBase \<Rightarrow> K8sBuildContext \<Rightarrow> PyAny dict" where
  "k8s_deploy_labels self ctx =
     update_if_not_None (or_empty (k8s_labels1 self ctx)) (deploy_labels (args self))"

definition k8s_labels2 :: "ServerBase \<Rightarrow> K8sBuildContext \<Rightarrow> PyAny dict option" where
  "k8s_labels2 self ctx = write_back (k8s_labels1 self ctx) (k8s_deploy_labels self ctx)"

text \<open>\<^verbatim>\<open># Create the deployment\<close>.\<close>

definition k8s_spark_deployment ::
  "phidata_modules \<Rightarrow> ServerBase \<Rightarrow> K8sBuildContext \<Rightarrow> PyPath \<Rightarrow> ContainerPathContext
     \<Rightarrow> CreateDeployment"
where
  "k8s_spark_deployment m self ctx root_path container_paths =
     \<lparr> cd_deploy_name = get_deploy_name self,
       cd_pod_name = get_pod_name self,
       cd_app_name = name (args self),
       cd_namespace = k8s_ns_name self ctx,
       cd_service_account_name = k8s_sa_name self ctx,
       cd_replicas = replicas (args self),
       cd_containers = k8s_containers m self ctx root_path container_paths,
       cd_init_containers =
         if_nonempty (k8s_init_containers m self ctx root_path container_paths),
       cd_pod_node_selector = pod_node_selector (args self),
       cd_restart_policy =
         (case deploy_restart_policy (args self) of Some p \<Rightarrow> p | None \<Rightarrow> ALWAYS),
       cd_termination_grace_period_seconds = termination_grace_period_seconds (args self),
       cd_volumes = if_nonempty (k8s_volumes m self ctx root_path container_paths),
       cd_labels = k8s_deploy_labels self ctx,
       cd_pod_annotations = k8s_pod_annotations m self ctx root_path container_paths,
       cd_topology_spread_key = topology_spread_key (args self),
       cd_topology_spread_max_skew = topology_spread_max_skew (args self),
       cd_topology_spread_when_unsatisfiable =
         topology_spread_when_unsatisfiable (args self) \<rparr>"

definition k8s_deployments ::
  "phidata_modules \<Rightarrow> ServerBase \<Rightarrow> K8sBuildContext \<Rightarrow> PyPath \<Rightarrow> ContainerPathContext
     \<Rightarrow> CreateDeployment list"
where
  "k8s_deployments m self ctx root_path container_paths =
     or_empty (extra_deployments (args self))
       @ [k8s_spark_deployment m self ctx root_path container_paths]"

text \<open>\<^verbatim>\<open># Create the services\<close>.\<close>

definition k8s_service_labels :: "ServerBase \<Rightarrow> K8sBuildContext \<Rightarrow> PyAny dict" where
  "k8s_service_labels self ctx =
     update_if_not_None (or_empty (k8s_labels2 self ctx)) (service_labels (args self))"

definition k8s_services ::
  "phidata_modules \<Rightarrow> ServerBase \<Rightarrow> K8sBuildContext \<Rightarrow> PyPath \<Rightarrow> ContainerPathContext
     \<Rightarrow> CreateService list"
where
  "k8s_services m self ctx root_path container_paths =
     (if create_service (args self)
      then or_empty (extra_services (args self)) @
             [ \<lparr> csv_service_name = get_service_name self,
                 csv_app_name = name (args self),
                 csv_namespace = k8s_ns_name self ctx,
                 csv_service_account_name = k8s_sa_name self ctx,
                 csv_service_type = service_type (args self),
                 csv_deployment = k8s_spark_deployment m self ctx root_path container_paths,
                 csv_ports = if_nonempty (k8s_ports (args self)),
                 csv_labels = k8s_service_labels self ctx \<rparr> ]
      else or_empty (extra_services (args self)))"

definition k8s_labels3 :: "ServerBase \<Rightarrow> K8sBuildContext \<Rightarrow> PyAny dict option" where
  "k8s_labels3 self ctx =
     (if create_service (args self)
      then write_back (k8s_labels2 self ctx) (k8s_service_labels self ctx)
      else k8s_labels2 self ctx)"

text \<open>\<^verbatim>\<open># Create the K8sResourceGroup\<close>: the object on which \<^verbatim>\<open>create()\<close> is called.\<close>

definition k8s_create_group ::
  "phidata_modules \<Rightarrow> ServerBase \<Rightarrow> K8sBuildContext \<Rightarrow> PyPath \<Rightarrow> ContainerPathContext
     \<Rightarrow> CreateK8sResourceGroup"
where
  "k8s_create_group m self ctx root_path container_paths =
     \<lparr> krg_name = name (args self),
       krg_enabled = enabled (args self),
       krg_ns = k8s_ns self ctx,
       krg_sa = k8s_sa self ctx,
       krg_cr = k8s_cr self ctx,
       krg_crb = k8s_crb self ctx,
       krg_secrets = if_nonempty (k8s_secrets self ctx),
       krg_config_maps = if_nonempty (k8s_config_maps m self ctx container_paths),
       krg_storage_classes = if_nonempty (or_empty (extra_storage_classes (args self))),
       krg_services = if_nonempty (k8s_services m self ctx root_path container_paths),
       krg_deployments = if_nonempty (k8s_deployments m self ctx root_path container_paths),
       krg_custom_objects = if_nonempty (or_empty (extra_custom_objects (args self))),
       krg_crds = if_nonempty (or_empty (extra_crds (args self))),
       krg_pvs = if_nonempty (or_empty (extra_pvs (args self))),
       krg_pvcs = if_nonempty (or_empty (extra_pvcs (args self))) \<rparr>"

text \<open>\<^verbatim>\<open>self\<close> after the body: the eight lists written back into the arguments.\<close>

definition k8s_self_after ::
  "phidata_modules \<Rightarrow> ServerBase \<Rightarrow> K8sBuildContext \<Rightarrow> PyPath \<Rightarrow> ContainerPathContext
     \<Rightarrow> ServerBase"
where
  "k8s_self_after m self ctx root_path container_paths =
     self\<lparr> args := (args self)
       \<lparr> extra_secrets := write_back (extra_secrets (args self)) (k8s_secrets self ctx),
         extra_configmaps :=
           write_back (extra_configmaps (args self))
             (k8s_config_maps m self ctx container_paths),
         extra_services :=
           write_back (extra_services (args self))
             (k8s_services m self ctx root_path container_paths),
         extra_deployments :=
           write_back (extra_deployments (args self))
             (k8s_deployments m self ctx root_path container_paths),
         extra_containers :=
           write_back (extra_containers (args self))
             (k8s_containers m self ctx root_path container_paths),
         extra_init_containers :=
           write_back (extra_init_containers (args self))
             (k8s_init_containers m self ctx root_path container_paths),
         extra_ports := write_back (extra_ports (args self)) (k8s_ports (args self)),
         extra_volumes :=
           write_back (extra_volumes (args self))
             (k8s_volumes m self ctx root_path container_paths) \<rparr> \<rparr>"

text \<open>
  \<^verbatim>\<open>get_k8s_rg\<close>: the guards, the body, then \<^verbatim>\<open>return k8s_resource_group.create()\<close>.
  \<^verbatim>\<open>CreateK8sResourceGroup.create\<close> is outside this file and is the parameter \<open>create\<close>;
  its result is the builder's.  The result also holds \<^verbatim>\<open>self\<close> and the build context as
  the call leaves them.
\<close>

definition get_k8s_rg ::
  "(CreateK8sResourceGroup \<Rightarrow> 'rg option) \<Rightarrow> phidata_modules \<Rightarrow> ServerBase \<Rightarrow> build_context
     \<Rightarrow> 'rg option \<times> ServerBase \<times> build_context"
where
  "get_k8s_rg create m self k8s_build_context =
     (case k8s_build_context of
        IsK8sBuildContext ctx \<Rightarrow>
          (case workspace_root_path self of
             None \<Rightarrow> (None, self, k8s_build_context)
           | Some root_path \<Rightarrow>
          (case get_container_paths self None of
             None \<Rightarrow> (None, self, k8s_build_context)
           | Some container_paths \<Rightarrow>
               (create (k8s_create_group m self ctx root_path container_paths),
                k8s_self_after m self ctx root_path container_paths,
                IsK8sBuildContext (ctx\<lparr> ctx_labels := k8s_labels3 self ctx \<rparr>))))
      | _ \<Rightarrow> (None, self, k8s_build_context))"

section \<open>AWS resources: \<^verbatim>\<open>get_aws_rg\<close>\<close>

text \<open>
  \<^verbatim>\<open># Get VPC ID from subnets\<close>.  The loop adds the VPC of each subnet to the set and raises
  \<^verbatim>\<open>ValueError\<close> as soon as the set does not hold exactly one id; after the loop the id is
  popped from the set.  Iterating over \<^verbatim>\<open>None\<close> raises \<^verbatim>\<open>TypeError\<close>.
\<close>

fun vpc_ids_loop ::
  "(string \<Rightarrow> string option) \<Rightarrow> string option list \<Rightarrow> string list
     \<Rightarrow> py_error + string option list"
where
  "vpc_ids_loop vpc_of vpc_ids [] = Inr vpc_ids"
| "vpc_ids_loop vpc_of vpc_ids (subnet # subnets) =
     (let vpc_ids' = set_add vpc_ids (vpc_of subnet)
      in if length vpc_ids' \<noteq> 1
         then Inl (ValueError ''Subnets must be in the same VPC'')
         else vpc_ids_loop vpc_of vpc_ids' subnets)"

definition vpc_id_from_subnets ::
  "phidata_modules \<Rightarrow> string list option \<Rightarrow> py_error + string option"
where
  "vpc_id_from_subnets m subnets =
     (case subnets of
        None \<Rightarrow> Inl (TypeError ''NoneType object is not iterable'')
      | Some ss \<Rightarrow>
          (case vpc_ids_loop (get_vpc_id m) [] ss of
             Inl e \<Rightarrow> Inl e
           | Inr vpc_ids \<Rightarrow>
               (case set_pop vpc_ids of
                  Inl e \<Rightarrow> Inl e
                | Inr (vpc_id, rest) \<Rightarrow> Inr vpc_id)))"

text \<open>The \<^verbatim>\<open>log_configuration\<close> display of the ECS container.\<close>

definition ecs_log_configuration :: "ServerBase \<Rightarrow> PyAny dict" where
  "ecs_log_configuration self =
     [ (''logDriver'', PyStr ''awslogs''),
       (''options'',
        PyDict
          [ (''awslogs-group'', PyStr (name (args self))),
            (''awslogs-region'',
               (case aws_region self of None \<Rightarrow> PyNone | Some r \<Rightarrow> PyStr r)),
            (''awslogs-create-group'', PyStr ''true''),
            (''awslogs-stream-prefix'', PyStr (name (args self))) ]) ]"

text \<open>\<^verbatim>\<open>aws_vpc_config\<close>: an empty dict filled by up to three item assignments.\<close>

definition aws_vpc_config :: "ServerBaseArgs \<Rightarrow> PyAny dict" where
  "aws_vpc_config a =
     (let c0 = [];
          c1 = (case aws_subnets a of
                  None \<Rightarrow> c0
                | Some ss \<Rightarrow> dict_setitem c0 ''subnets'' (PyList (map PyStr ss)));
          c2 = (case aws_security_groups a of
                  None \<Rightarrow> c1
                | Some gs \<Rightarrow> dict_setitem c1 ''securityGroups'' (PyList (map PyStr gs)))
      in if assign_public_ip a then dict_setitem c2 ''assignPublicIp'' (PyStr ''ENABLED'') else c2)"

text \<open>
  \<^verbatim>\<open>get_aws_rg\<close>.  The builder never looks at \<^verbatim>\<open>aws_build_context\<close> and assigns to no
  field of \<^verbatim>\<open>self\<close>; its result is the exception it raises (\<open>Inl\<close>), or what it returns.
\<close>

definition get_aws_rg ::
  "phidata_modules \<Rightarrow> ServerBase \<Rightarrow> build_context \<Rightarrow> py_error + AwsResourceGroup option"
where
  "get_aws_rg m self aws_build_context =
     (let a = args self; app_name = name a in
      case workspace_root_path self of
        None \<Rightarrow> Inr None
      | Some root_path \<Rightarrow>
     (case get_container_paths self (Some False) of
        None \<Rightarrow> Inr None
      | Some container_paths \<Rightarrow>
     (let container_env =
            set_container_env self
              (set_aws_env_vars self
                 (dict_literal (runtime_env_entries m a container_paths ''ecs'')));
          ecs_cluster' =
            (case ecs_cluster a of
               Some c \<Rightarrow> c
             | None \<Rightarrow>
                 \<lparr> ec_name = app_name @ ''-cluster'',
                   ec_ecs_cluster_name = app_name,
                   ec_capacity_providers = [ecs_launch_type a],
                   ec_skip_create = skip_create a,
                   ec_skip_delete = skip_delete a,
                   ec_wait_for_creation = wait_for_creation a,
                   ec_wait_for_deletion = wait_for_deletion a \<rparr>);
          load_balancer =
            (case elb a of
               Some l \<Rightarrow> l
             | None \<Rightarrow>
                 \<lparr> lb_name = app_name @ ''-lb'',
                   lb_subnets = aws_subnets a,
                   lb_security_groups = aws_security_groups a,
                   lb_skip_create = skip_create a,
                   lb_skip_delete = skip_delete a,
                   lb_wait_for_creation = wait_for_creation a,
                   lb_wait_for_deletion = wait_for_deletion a \<rparr>)
      in case vpc_id_from_subnets m (aws_subnets a) of
           Inl e \<Rightarrow> Inl e
         | Inr vpc_id \<Rightarrow>
     (let target_group =
            \<lparr> tg_name = app_name @ ''-tg'',
              tg_port = get_container_port self,
              tg_protocol = ''HTTP'',
              tg_vpc_id = vpc_id,
              tg_target_type = ''ip'',
              tg_skip_create = skip_create a,
              tg_skip_delete = skip_delete a,
              tg_wait_for_creation = wait_for_creation a,
              tg_wait_for_deletion = wait_for_deletion a \<rparr>;
          listener =
            \<lparr> ls_name = app_name @ ''-listener'',
              ls_protocol = ''HTTP'',
              ls_port = 80,
              ls_load_balancer = load_balancer,
              ls_target_group = target_group,
              ls_skip_create = skip_create a,
              ls_skip_delete = skip_delete a,
              ls_wait_for_creation = wait_for_creation a,
              ls_wait_for_deletion = wait_for_deletion a \<rparr>;
          ecs_container =
            \<lparr> ecn_name = app_name,
              ecn_image = get_image_str self,
              ecn_port_mappings = [[(''containerPort'', PyInt (get_container_port self))]],
              ecn_command = command a,
              ecn_environment =
                map (\<lambda>(k, v). [(''name'', PyStr k), (''value'', PyStr v)]) container_env,
              ecn_log_configuration = ecs_log_configuration self,
              ecn_skip_create = skip_create a,
              ecn_skip_delete = skip_delete a,
              ecn_wait_for_creation = wait_for_creation a,
              ecn_wait_for_deletion = wait_for_deletion a \<rparr>;
          ecs_task_definition =
            \<lparr> etd_name = app_name @ ''-td'',
              etd_family = app_name,
              etd_network_mode = ''awsvpc'',
              etd_cpu = ecs_task_cpu a,
              etd_memory = ecs_task_memory a,
              etd_containers = [ecs_container],
              etd_requires_compatibilities = [ecs_launch_type a],
              etd_skip_create = skip_create a,
              etd_skip_delete = skip_delete a,
              etd_wait_for_creation = wait_for_creation a,
              etd_wait_for_deletion = wait_for_deletion a \<rparr>;
          ecs_service =
            \<lparr> es_name = app_name @ ''-service'',
              es_desired_count = ecs_service_count a,
              es_launch_type = ecs_launch_type a,
              es_cluster = ecs_cluster',
              es_task_definition = ecs_task_definition,
              es_target_group = target_group,
              es_target_container_name = ecn_name ecs_container,
              es_target_container_port = get_container_port self,
              es_network_configuration =
                [(''awsvpcConfiguration'', PyDict (aws_vpc_config a))],
              es_force_delete = True,
              es_force_new_deployment = True,
              es_skip_create = skip_create a,
              es_skip_delete = skip_delete a,
              es_wait_for_creation = wait_for_creation a,
              es_wait_for_deletion = wait_for_deletion a \<rparr>
      in Inr (Some
           \<lparr> arg_name = app_name,
             arg_enabled = self_enabled self,
             arg_ecs_clusters = [ecs_cluster'],
             arg_ecs_task_definitions = [ecs_task_definition],
             arg_ecs_services = [ecs_service],
             arg_load_balancers = [load_balancer],
             arg_target_groups = [target_group],
             arg_listeners = [listener] \<rparr>)))))"

section \<open>The environment precedence in the words of the specification\<close>

text \<open>
  Section 4.2 of the specification lists the sources of the environment from lowest to
  highest precedence and says that each later source fully overwrites the keys it also
  defines.  \<open>compose_spec sources k\<close> is the value of key \<open>k\<close> under that rule for a list of
  sources in that order: the value a later source gives, and else the value of this one.
\<close>

fun compose_spec :: "string dict list \<Rightarrow> string \<Rightarrow> string option" where
  "compose_spec [] k = None"
| "compose_spec (source # later) k =
     (case compose_spec later k of
        Some v \<Rightarrow> Some v
      | None \<Rightarrow> dict_get source k)"

section \<open>A concrete application\<close>

text \<open>
  \<open>default_args\<close> holds the defaults of the parameters of \<^verbatim>\<open>ServerBase.__init__\<close>.
  \<open>example_modules\<close> and \<open>example_self\<close> fix the parts that lie outside the file to simple
  values: variable names, container paths under \<^verbatim>\<open>/usr/local/server\<close>, a workspace at
  \<^verbatim>\<open>/home/user/ws\<close>, and two subnets in one VPC and a third in another.
\<close>

definition default_args :: ServerBaseArgs where
  "default_args =
     \<lparr> name = ''server'',
       enabled = True,
       image_arg = None,
       image_name = ''phidata/server'',
       image_tag = ''1.5.0'',
       entrypoint = None,
       command = None,
       install_requirements = False,
       python_path = None,
       add_python_path = None,
       container_labels = None,
       env = None,
       open_container_port = False,
       container_port = 8080,
       container_port_name = ''http'',
       container_host_port = 8080,
       mount_workspace = False,
       workspace_volume_name = None,
       workspace_volume_type = None,
       workspace_volume_host_path = None,
       create_git_sync_sidecar = False,
       create_git_sync_init_container = True,
       git_sync_image_name = ''k8s.gcr.io/git-sync'',
       git_sync_image_tag = ''v3.1.1'',
       git_sync_repo = None,
       git_sync_branch = None,
       git_sync_wait = Some 1,
       container_detach = True,
       container_auto_remove = True,
       container_remove = True,
       container_user = None,
       container_stdin_open = True,
       container_tty = True,
       container_healthcheck = None,
       container_hostname = None,
       container_platform = None,
       container_working_dir = None,
       container_volumes_docker = None,
       container_ports_docker = None,
       replicas = 1,
       secret_name = None,
       configmap_name = None,
       image_pull_policy = None,
       pod_annotations = None,
       pod_node_selector = None,
       deploy_restart_policy = None,
       deploy_labels = None,
       termination_grace_period_seconds = None,
       topology_spread_key = None,
       topology_spread_max_skew = None,
       topology_spread_when_unsatisfiable = None,
       create_service = False,
       service_type = None,
       service_port = 8000,
       service_target_port = None,
       service_labels = None,
       use_rbac = False,
       ns_name = None,
       namespace = None,
       sa_name = None,
       service_account = None,
       cr_name = None,
       cluster_role = None,
       crb_name = None,
       cluster_role_binding = None,
       extra_secrets = None,
       extra_configmaps = None,
       extra_services = None,
       extra_deployments = None,
       extra_pvs = None,
       extra_pvcs = None,
       extra_containers = None,
       extra_init_containers = None,
       extra_ports = None,
       extra_volumes = None,
       extra_storage_classes = None,
       extra_custom_objects = None,
       extra_crds = None,
       ecs_cluster = None,
       ecs_launch_type = ''FARGATE'',
       ecs_task_cpu = ''256'',
       ecs_task_memory = ''512'',
       ecs_service_count = 1,
       assign_public_ip = True,
       elb = None,
       aws_subnets = None,
       aws_security_groups = None,
       print_env_on_load = False,
       skip_create = False,
       skip_delete = False,
       wait_for_creation = True,
       wait_for_deletion = True,
       use_cache = True \<rparr>"

definition example_modules :: phidata_modules where
  "example_modules =
     \<lparr> PYTHONPATH_ENV_VAR = ''PYTHONPATH'',
       PHIDATA_RUNTIME_ENV_VAR = ''PHIDATA_RUNTIME'',
       SCRIPTS_DIR_ENV_VAR = ''SCRIPTS_DIR'',
       STORAGE_DIR_ENV_VAR = ''STORAGE_DIR'',
       META_DIR_ENV_VAR = ''META_DIR'',
       PRODUCTS_DIR_ENV_VAR = ''PRODUCTS_DIR'',
       NOTEBOOKS_DIR_ENV_VAR = ''NOTEBOOKS_DIR'',
       WORKFLOWS_DIR_ENV_VAR = ''WORKFLOWS_DIR'',
       WORKSPACE_ROOT_ENV_VAR = ''WORKSPACE_ROOT'',
       WORKSPACES_MOUNT_ENV_VAR = ''WORKSPACES_MOUNT'',
       WORKSPACE_CONFIG_DIR_ENV_VAR = ''WORKSPACE_CONFIG_DIR'',
       get_default_volume_name = (\<lambda>s. s @ ''-volume''),
       get_vpc_id =
         (\<lambda>s. if s = ''subnet-a'' \<or> s = ''subnet-b'' then Some ''vpc-1''
              else if s = ''subnet-c'' then Some ''vpc-2'' else None) \<rparr>"

definition example_container_paths :: ContainerPathContext where
  "example_container_paths =
     \<lparr> workspace_root = ''/usr/local/server/ws'',
       scripts_dir = ''/usr/local/server/ws/scripts'',
       storage_dir = ''/usr/local/server/ws/storage'',
       meta_dir = ''/usr/local/server/ws/meta'',
       products_dir = ''/usr/local/server/ws/products'',
       notebooks_dir = ''/usr/local/server/ws/notebooks'',
       workflows_dir = ''/usr/local/server/ws/workflows'',
       workspace_parent = ''/usr/local/server'',
       workspace_config_dir = ''/usr/local/server/ws/workspace'',
       requirements_file = ''/usr/local/server/ws/requirements.txt'' \<rparr>"

definition example_self :: ServerBase where
  "example_self =
     \<lparr> args = default_args,
       self_enabled = True,
       workspace_root_path = Some \<lparr> path_str = ''/home/user/ws'', stem = ''ws'' \<rparr>,
       get_container_paths = (\<lambda>add_ws_name. Some example_container_paths),
       aws_region = Some ''us-east-1'',
       aws_env_vars = [(''AWS_REGION'', ''us-east-1'')],
       get_env_data = None,
       get_secret_data = None,
       get_container_name = ''server-container'',
       get_image_str = ''phidata/server:1.5.0'',
       get_container_restart_policy_docker = None,
       get_container_port = 8080,
       get_sa_name = ''server-sa'',
       get_cr_name = ''server-cr'',
       get_crb_name = ''server-crb'',
       get_configmap_name = ''server-cm'',
       get_secret_name = ''server-secret'',
       get_deploy_name = ''server-deploy'',
       get_pod_name = ''server-pod'',
       get_service_name = ''server-svc'' \<rparr>"

definition example_docker_context :: build_context where
  "example_docker_context = IsDockerBuildContext \<lparr> ctx_network = ''phi'' \<rparr>"

definition example_k8s_context :: build_context where
  "example_k8s_context =
     IsK8sBuildContext \<lparr> ctx_namespace = ''default'',
                          ctx_service_account_name = None,
                          ctx_labels = None \<rparr>"

definition example_aws_context :: build_context where
  "example_aws_context =
     IsAwsBuildContext \<lparr> ctx_aws_region = Some ''us-east-1'', ctx_aws_profile = None \<rparr>"

text \<open>An extra config map and an extra container, as a caller may pass them.\<close>

definition example_configmap :: CreateConfigMap where
  "example_configmap =
     \<lparr> ccm_cm_name = ''extra-cm'', ccm_app_name = ''server'', ccm_namespace = ''default'',
       ccm_data = [(''FLAG'', ''1'')], ccm_labels = None \<rparr>"

definition example_container :: CreateContainer where
  "example_container =
     \<lparr> cc_container_name = ''helper'', cc_app_name = ''server'',
       cc_image_name = ''busybox'', cc_image_tag = ''1'',
       cc_args = None, cc_command = None, cc_image_pull_policy = None, cc_env = None,
       cc_envs_from_configmap = None, cc_envs_from_secret = None,
       cc_ports = None, cc_volumes = None, cc_labels = None \<rparr>"

section \<open>Facts about dictionaries and strings\<close>

lemma map_of_dict_setitem: "map_of (dict_setitem d k v) = (map_of d)(k \<mapsto> v)"
  by (induction d) (auto simp: fun_eq_iff)

lemma dict_get_setitem: "dict_get (dict_setitem d k v) k' = (if k' = k then Some v else dict_get d k')"
  by (simp add: dict_get_def map_of_dict_setitem)

lemma dict_keys_setitem: "set (dict_keys (dict_setitem d k v)) = insert k (set (dict_keys d))"
  by (simp add: dict_keys_def dom_map_of_conv_image_fst [symmetric] map_of_dict_setitem)

lemma dict_setitem_keeps_others:
  "(k', v') \<in> set d \<Longrightarrow> k' \<noteq> k \<Longrightarrow> (k', v') \<in> set (dict_setitem d k v)"
  by (induction d) auto

lemma dict_setitem_nonempty: "dict_setitem d k v \<noteq> []"
  by (cases d) (auto split: if_splits)

lemma str_int_8080: "str_int 8080 = ''8080''"
  by (simp add: str_int_def str_nat.simps[of 8080] str_nat.simps[of 808] str_nat.simps[of 80]
        str_nat.simps[of 8] digit_char_def)

lemma map_of_dict_update: "map_of (dict_update d other) = map_of d ++ map_of (rev other)"
proof (induction other arbitrary: d)
  case Nil
  then show ?case by simp
next
  case (Cons kv other)
  obtain k v where kv: "kv = (k, v)" by (cases kv)
  have "map_of (dict_update d (kv # other)) = map_of (dict_update (dict_setitem d k v) other)"
    using kv by simp
  also have "\<dots> = map_of (dict_setitem d k v) ++ map_of (rev other)"
    by (rule Cons.IH)
  also have "\<dots> = (map_of d)(k \<mapsto> v) ++ map_of (rev other)"
    by (simp only: map_of_dict_setitem)
  also have "\<dots> = map_of d ++ (map_of (rev other @ [(k, v)]))"
    by (simp add: fun_eq_iff map_add_def split: option.splits)
  finally show ?case using kv by simp
qed

lemma dict_get_update:
  assumes "distinct (dict_keys other)"
  shows "dict_get (dict_update d other) k
           = (case dict_get other k of Some v \<Rightarrow> Some v | None \<Rightarrow> dict_get d k)"
proof -
  have "map_of (rev other) = map_of other"
    using assms by (simp add: dict_keys_def map_of_inject_set distinct_map)
  then show ?thesis
    by (simp add: dict_get_def map_of_dict_update map_add_def split: option.splits)
qed

lemma dict_get_None_iff: "dict_get d k = None \<longleftrightarrow> k \<notin> set (dict_keys d)"
  by (simp add: dict_get_def dict_keys_def map_of_eq_None_iff)

lemma dict_get_update_if_not_None:
  assumes "distinct (dict_keys (or_empty other))"
  shows "dict_get (update_if_not_None d other) k
           = (case dict_get (or_empty other) k of Some v \<Rightarrow> Some v | None \<Rightarrow> dict_get d k)"
proof (cases other)
  case None
  then show ?thesis by (simp add: update_if_not_None_def or_empty_def dict_get_def)
next
  case (Some other')
  then show ?thesis
    using assms dict_get_update [of other' d k]
    by (simp add: update_if_not_None_def or_empty_def)
qed


section \<open>Properties of the conversation event logger\<close>

lemma log_conversation_event_try_Some_iff:
  "log_conversation_event_try api cl c w = Inr (Some s) \<longleftrightarrow>
     (\<exists>ev ws r js.
        event_model_dump api c = Inr ev \<and> workspace_model_dump api w = Inr ws
      \<and> post api cl CONVERSATION_EVENT (PyDict [(''event'', ev), (''workspace'', ws)]) = Inr r
      \<and> invalid_response api r = Inr False
      \<and> json api r = Inr js \<and> js \<noteq> PyNone
      \<and> model_validate api js = Inr (Some s))"
  by (auto simp: log_conversation_event_try_def split: sum.splits option.splits if_splits)

text \<open>
  Claim C6.  \<^verbatim>\<open>log_conversation_event\<close> returns \<^verbatim>\<open>None\<close> without raising when telemetry is
  disabled, when the HTTP \<^verbatim>\<open>post\<close> raises, when the response is classified invalid, and when
  the body is \<^verbatim>\<open>None\<close> or fails validation; once the client is open no exception of the
  \<^verbatim>\<open>try\<close> block reaches the caller; and the result is a parsed schema exactly when
  telemetry is enabled, the call succeeded, the response is valid and validates to it.
\<close>

theorem log_conversation_event_best_effort:
  fixes api :: "('ev, 'ws, 'cl, 'resp, 'schema) phi_api"
  shows
  "(\<not> api_enabled api \<longrightarrow> log_conversation_event api c w = Inr None)
 \<and> (\<forall>cl. Client api = Inr cl \<longrightarrow> (\<exists>res. log_conversation_event api c w = Inr res))
 \<and> (\<forall>cl ev ws e. Client api = Inr cl \<and> event_model_dump api c = Inr ev
        \<and> workspace_model_dump api w = Inr ws
        \<and> post api cl CONVERSATION_EVENT (PyDict [(''event'', ev), (''workspace'', ws)]) = Inl e
      \<longrightarrow> log_conversation_event api c w = Inr None)
 \<and> (\<forall>cl ev ws r. Client api = Inr cl \<and> event_model_dump api c = Inr ev
        \<and> workspace_model_dump api w = Inr ws
        \<and> post api cl CONVERSATION_EVENT (PyDict [(''event'', ev), (''workspace'', ws)]) = Inr r
        \<and> invalid_response api r = Inr True
      \<longrightarrow> log_conversation_event api c w = Inr None)
 \<and> (\<forall>cl ev ws r js e. Client api = Inr cl \<and> event_model_dump api c = Inr ev
        \<and> workspace_model_dump api w = Inr ws
        \<and> post api cl CONVERSATION_EVENT (PyDict [(''event'', ev), (''workspace'', ws)]) = Inr r
        \<and> invalid_response api r = Inr False \<and> json api r = Inr js
        \<and> (js = PyNone \<or> model_validate api js = Inl e \<or> model_validate api js = Inr None)
      \<longrightarrow> log_conversation_event api c w = Inr None)
 \<and> (\<forall>s. log_conversation_event api c w = Inr (Some s) \<longleftrightarrow>
        api_enabled api \<and>
        (\<exists>cl ev ws r js. Client api = Inr cl \<and> event_model_dump api c = Inr ev
           \<and> workspace_model_dump api w = Inr ws
           \<and> post api cl CONVERSATION_EVENT (PyDict [(''event'', ev), (''workspace'', ws)]) = Inr r
           \<and> invalid_response api r = Inr False \<and> json api r = Inr js \<and> js \<noteq> PyNone
           \<and> model_validate api js = Inr (Some s)))"
proof (intro conjI allI impI)
  show "log_conversation_event api c w = Inr None" if "\<not> api_enabled api"
    using that by (simp add: log_conversation_event_def)
next
  fix cl assume "Client api = Inr cl"
  then show "\<exists>res. log_conversation_event api c w = Inr res"
    by (simp add: log_conversation_event_def split: sum.splits)
next
  fix cl ev ws e
  assume "Client api = Inr cl \<and> event_model_dump api c = Inr ev
        \<and> workspace_model_dump api w = Inr ws
        \<and> post api cl CONVERSATION_EVENT (PyDict [(''event'', ev), (''workspace'', ws)]) = Inl e"
  then show "log_conversation_event api c w = Inr None"
    by (simp add: log_conversation_event_def log_conversation_event_try_def)
next
  fix cl ev ws r
  assume "Client api = Inr cl \<and> event_model_dump api c = Inr ev
        \<and> workspace_model_dump api w = Inr ws
        \<and> post api cl CONVERSATION_EVENT (PyDict [(''event'', ev), (''workspace'', ws)]) = Inr r
        \<and> invalid_response api r = Inr True"
  then show "log_conversation_event api c w = Inr None"
    by (simp add: log_conversation_event_def log_conversation_event_try_def)
next
  fix cl ev ws r js e
  assume "Client api = Inr cl \<and> event_model_dump api c = Inr ev
        \<and> workspace_model_dump api w = Inr ws
        \<and> post api cl CONVERSATION_EVENT (PyDict [(''event'', ev), (''workspace'', ws)]) = Inr r
        \<and> invalid_response api r = Inr False \<and> json api r = Inr js
        \<and> (js = PyNone \<or> model_validate api js = Inl e \<or> model_validate api js = Inr None)"
  then show "log_conversation_event api c w = Inr None"
    by (auto simp: log_conversation_event_def log_conversation_event_try_def)
next
  fix s
  show "log_conversation_event api c w = Inr (Some s) \<longleftrightarrow>
        api_enabled api \<and>
        (\<exists>cl ev ws r js. Client api = Inr cl \<and> event_model_dump api c = Inr ev
           \<and> workspace_model_dump api w = Inr ws
           \<and> post api cl CONVERSATION_EVENT (PyDict [(''event'', ev), (''workspace'', ws)]) = Inr r
           \<and> invalid_response api r = Inr False \<and> json api r = Inr js \<and> js \<noteq> PyNone
           \<and> model_validate api js = Inr (Some s))"
  proof (cases "api_enabled api")
    case False
    then show ?thesis by (simp add: log_conversation_event_def)
  next
    case True
    show ?thesis
    proof (cases "Client api")
      case (Inl e)
      with True show ?thesis by (simp add: log_conversation_event_def)
    next
      case (Inr cl)
      have "log_conversation_event api c w = Inr (Some s)
              \<longleftrightarrow> log_conversation_event_try api cl c w = Inr (Some s)"
        using True Inr by (simp add: log_conversation_event_def split: sum.splits)
      then show ?thesis
        using True Inr by (simp add: log_conversation_event_try_Some_iff)
    qed
  qed
qed

theorem log_conversation_event_best_effort_witness:
  "log_conversation_event (example_api\<lparr>api_enabled := False\<rparr>) ''chat'' ''ws'' = Inr None
 \<and> log_conversation_event
       (example_api\<lparr>post := (\<lambda>cl route body. Inl (Exception ''ConnectError''))\<rparr>) ''chat'' ''ws''
     = Inr None
 \<and> log_conversation_event
       (example_api\<lparr>invalid_response := (\<lambda>r. Inr True)\<rparr>) ''chat'' ''ws'' = Inr None
 \<and> log_conversation_event
       (example_api\<lparr>model_validate := (\<lambda>js. Inl (Exception ''ValidationError''))\<rparr>)
       ''chat'' ''ws'' = Inr None
 \<and> log_conversation_event example_api ''chat'' ''ws'' = Inr (Some ''validated'')"
proof (intro conjI)
  show "log_conversation_event (example_api\<lparr>api_enabled := False\<rparr>) ''chat'' ''ws'' = Inr None"
    using log_conversation_event_best_effort
            [of "example_api\<lparr>api_enabled := False\<rparr>" "''chat''" "''ws''"]
    by (simp add: example_api_def)
next
  show "log_conversation_event
       (example_api\<lparr>post := (\<lambda>cl route body. Inl (Exception ''ConnectError''))\<rparr>) ''chat'' ''ws''
     = Inr None"
    using log_conversation_event_best_effort
            [of "example_api\<lparr>post := (\<lambda>cl route body. Inl (Exception ''ConnectError''))\<rparr>"
                "''chat''" "''ws''"]
    by (simp add: example_api_def)
next
  show "log_conversation_event
       (example_api\<lparr>invalid_response := (\<lambda>r. Inr True)\<rparr>) ''chat'' ''ws'' = Inr None"
    using log_conversation_event_best_effort
            [of "example_api\<lparr>invalid_response := (\<lambda>r. Inr True)\<rparr>" "''chat''" "''ws''"]
    by (simp add: example_api_def)
next
  show "log_conversation_event
       (example_api\<lparr>model_validate := (\<lambda>js. Inl (Exception ''ValidationError''))\<rparr>)
       ''chat'' ''ws'' = Inr None"
    using log_conversation_event_best_effort
            [of "example_api\<lparr>model_validate := (\<lambda>js. Inl (Exception ''ValidationError''))\<rparr>"
                "''chat''" "''ws''"]
    by (simp add: example_api_def)
next
  show "log_conversation_event example_api ''chat'' ''ws'' = Inr (Some ''validated'')"
    using log_conversation_event_best_effort [of example_api "''chat''" "''ws''"]
    by (simp add: example_api_def)
qed

section \<open>Properties of the Docker builder\<close>

text \<open>
  The builder returns a resource group when it is given a Docker context, the workspace root
  and the container paths resolve, and the workspace volume type is one it supports; the
  group has one container, whose port map is \<^verbatim>\<open>container_ports\<close> (or \<^verbatim>\<open>None\<close> when empty).
\<close>

lemma docker_volumes_supported:
  "\<not> (mount_workspace (args self) \<and> (\<exists>v. workspace_volume_type (args self) = Some (OtherVolumeType v)))
   \<Longrightarrow> \<exists>vols. docker_container_volumes m self p cp = Some vols"
  by (auto simp: docker_container_volumes_def Let_def split: option.splits WorkspaceVolumeType.splits)

lemma get_docker_rg_ports:
  assumes "get_docker_rg m self ctx = (Some rg, self')"
  shows "\<exists>c. drg_containers rg = [c] \<and> dc_ports c = if_nonempty (docker_container_ports (args self))"
  using assms
  by (auto simp: get_docker_rg_def Let_def split: build_context.splits option.splits)

lemma get_docker_rg_returns:
  assumes "ctx = IsDockerBuildContext d" "workspace_root_path self = Some p"
    "get_container_paths self None = Some cp"
    "\<not> (mount_workspace (args self) \<and> (\<exists>v. workspace_volume_type (args self) = Some (OtherVolumeType v)))"
  shows "\<exists>rg. fst (get_docker_rg m self ctx) = Some rg"
  using assms docker_volumes_supported[OF assms(4), of m p cp]
  by (auto simp: get_docker_rg_def Let_def)


text \<open>
  Claim C7.  With \<^verbatim>\<open>open_container_port=True\<close>, \<^verbatim>\<open>container_port=8080\<close> and
  \<^verbatim>\<open>container_host_port=3333\<close> the Docker builder returns a group whose container has the
  port map obtained by storing \<^verbatim>\<open>"8080": 3333\<close> in the caller's \<^verbatim>\<open>container_ports_docker\<close>
  map: the binding is there, every key of the caller's map is still a key, and every entry
  of the caller's map under another key is kept as it was.  (An entry the caller gave under
  the key \<^verbatim>\<open>"8080"\<close> itself keeps its place and takes the value 3333.)
\<close>

theorem docker_port_binding_merged:
  assumes ctx: "docker_build_context = IsDockerBuildContext d"
    and root: "workspace_root_path self = Some root_path"
    and paths: "get_container_paths self None = Some container_paths"
    and vol: "\<not> (mount_workspace (args self)
                 \<and> (\<exists>v. workspace_volume_type (args self) = Some (OtherVolumeType v)))"
    and opn: "open_container_port (args self)"
    and port: "container_port (args self) = 8080"
    and host: "container_host_port (args self) = 3333"
  shows "\<exists>rg c ports.
           fst (get_docker_rg m self docker_build_context) = Some rg
         \<and> drg_containers rg = [c]
         \<and> dc_ports c = Some ports
         \<and> ports = dict_setitem (or_empty (container_ports_docker (args self)))
                     ''8080'' (PyInt 3333)
         \<and> dict_get ports ''8080'' = Some (PyInt 3333)
         \<and> (\<forall>k \<in> set (dict_keys (or_empty (container_ports_docker (args self)))).
                k \<in> set (dict_keys ports))
         \<and> (\<forall>(k, v) \<in> set (or_empty (container_ports_docker (args self))).
                k \<noteq> ''8080'' \<longrightarrow> (k, v) \<in> set ports)"
proof -
  let ?user = "or_empty (container_ports_docker (args self))"
  let ?ports = "dict_setitem ?user ''8080'' (PyInt 3333)"
  obtain rg where rg: "fst (get_docker_rg m self docker_build_context) = Some rg"
    using get_docker_rg_returns [OF ctx root paths vol] by blast
  then have "get_docker_rg m self docker_build_context
               = (Some rg, snd (get_docker_rg m self docker_build_context))"
    by (metis prod.collapse)
  from get_docker_rg_ports [OF this]
  obtain c where c: "drg_containers rg = [c]"
    and p: "dc_ports c = if_nonempty (docker_container_ports (args self))"
    by blast
  have dp: "docker_container_ports (args self) = ?ports"
    using opn port host by (simp add: docker_container_ports_def str_int_8080)
  have "dc_ports c = Some ?ports"
    using p dp dict_setitem_nonempty [of ?user "''8080''" "PyInt 3333"]
    by (simp add: if_nonempty_def)
  moreover have "dict_get ?ports ''8080'' = Some (PyInt 3333)"
    by (simp add: dict_get_setitem)
  moreover have "\<forall>k \<in> set (dict_keys ?user). k \<in> set (dict_keys ?ports)"
    by (simp add: dict_keys_setitem)
  moreover have "\<forall>(k, v) \<in> set ?user. k \<noteq> ''8080'' \<longrightarrow> (k, v) \<in> set ?ports"
    by (auto intro: dict_setitem_keeps_others)
  ultimately show ?thesis using rg c by blast
qed

theorem docker_port_binding_merged_witness:
  "\<exists>rg c.
      fst (get_docker_rg example_modules
             (example_self\<lparr>args := default_args
                \<lparr>open_container_port := True, container_host_port := 3333,
                 container_ports_docker := Some [(''2222/tcp'', PyInt 3333), (''1111/tcp'', PyNone)]\<rparr>\<rparr>)
             example_docker_context) = Some rg
    \<and> drg_containers rg = [c]
    \<and> dc_ports c
        = Some [(''2222/tcp'', PyInt 3333), (''1111/tcp'', PyNone), (''8080'', PyInt 3333)]"
proof -
  let ?self = "example_self\<lparr>args := default_args
                \<lparr>open_container_port := True, container_host_port := 3333,
                 container_ports_docker := Some [(''2222/tcp'', PyInt 3333), (''1111/tcp'', PyNone)]\<rparr>\<rparr>"
  have ctx: "example_docker_context = IsDockerBuildContext \<lparr> ctx_network = ''phi'' \<rparr>"
    by (simp add: example_docker_context_def)
  have root: "workspace_root_path ?self = Some \<lparr> path_str = ''/home/user/ws'', stem = ''ws'' \<rparr>"
    by (simp add: example_self_def)
  have paths: "get_container_paths ?self None = Some example_container_paths"
    by (simp add: example_self_def)
  have vol: "\<not> (mount_workspace (args ?self)
                 \<and> (\<exists>v. workspace_volume_type (args ?self) = Some (OtherVolumeType v)))"
    by (simp add: default_args_def)
  have opn: "open_container_port (args ?self)" by simp
  have port: "container_port (args ?self) = 8080" by (simp add: default_args_def)
  have host: "container_host_port (args ?self) = 3333" by simp
  from docker_port_binding_merged [OF ctx root paths vol opn port host, of example_modules]
  obtain rg c ports where
    "fst (get_docker_rg example_modules ?self example_docker_context) = Some rg"
    "drg_containers rg = [c]" "dc_ports c = Some ports"
    "ports = dict_setitem (or_empty (container_ports_docker (args ?self))) ''8080'' (PyInt 3333)"
    by blast
  moreover have "dict_setitem (or_empty (container_ports_docker (args ?self))) ''8080'' (PyInt 3333)
      = [(''2222/tcp'', PyInt 3333), (''1111/tcp'', PyNone), (''8080'', PyInt 3333)]"
    by (simp add: or_empty_def)
  ultimately show ?thesis by auto
qed

section \<open>Properties of the Kubernetes builder\<close>

text \<open>
  Past its guards the builder returns what \<^verbatim>\<open>create()\<close> makes of the group it built; the
  group's config maps and deployments are the caller's extra ones followed by the generated
  one.
\<close>

lemma get_k8s_rg_built:
  assumes "workspace_root_path self = Some root_path"
    and "get_container_paths self None = Some container_paths"
  shows "fst (get_k8s_rg create m self (IsK8sBuildContext ctx))
           = create (k8s_create_group m self ctx root_path container_paths)"
    and "fst (snd (get_k8s_rg create m self (IsK8sBuildContext ctx)))
           = k8s_self_after m self ctx root_path container_paths"
  using assms by (simp_all add: get_k8s_rg_def)

lemma krg_config_maps_create_group:
  "krg_config_maps (k8s_create_group m self ctx root_path container_paths)
     = Some (or_empty (extra_configmaps (args self))
             @ [k8s_container_env_cm m self ctx container_paths])"
  by (simp add: k8s_create_group_def k8s_config_maps_def if_nonempty_def)

lemma krg_deployments_create_group:
  "krg_deployments (k8s_create_group m self ctx root_path container_paths)
     = Some (or_empty (extra_deployments (args self))
             @ [k8s_spark_deployment m self ctx root_path container_paths])"
  by (simp add: k8s_create_group_def k8s_deployments_def if_nonempty_def)

lemma k8s_workspace_volume_no_repo:
  assumes "mount_workspace (args self)"
    and "workspace_volume_type (args self) = None \<or> workspace_volume_type (args self) = Some EmptyDir"
    and "create_git_sync_sidecar (args self)"
    and "git_sync_repo (args self) = None"
  shows "k8s_workspace_volume m self root_path container_paths cms secs volumes containers inits
           = (volumes @
                [ \<lparr> cv_volume_name =
                      workspace_volume_name_or_default m (args self) (stem root_path),
                    cv_app_name = name (args self),
                    cv_mount_path = workspace_parent container_paths,
                    cv_volume_type = EMPTY_DIR,
                    cv_host_path = None \<rparr> ],
              containers, inits)"
  using assms by (auto simp: k8s_workspace_volume_def Let_def)


lemma cd_pod_annotations_spark_deployment:
  "cd_pod_annotations (k8s_spark_deployment m self ctx root_path container_paths)
     = update_if_not_None [(default_container_annotation, get_container_name self)]
         (pod_annotations (args self))"
  by (simp add: k8s_spark_deployment_def k8s_pod_annotations_def k8s_spark_container_def
        dict_literal_def)

lemma hd_cd_containers_spark_deployment:
  "\<exists>rest. cd_containers (k8s_spark_deployment m self ctx root_path container_paths)
            = k8s_spark_container m self ctx root_path container_paths # rest"
  by (simp add: k8s_spark_deployment_def k8s_containers_def)

lemma k8s_volumes_containers_no_mount:
  assumes "\<not> mount_workspace (args self)"
  shows "k8s_volumes_containers m self ctx root_path container_paths
           = (or_empty (extra_volumes (args self)),
              or_empty (extra_containers (args self)),
              or_empty (extra_init_containers (args self)))"
  using assms by (simp add: k8s_volumes_containers_def k8s_workspace_volume_def Let_def)

lemma k8s_container_names_no_mount:
  assumes "\<not> mount_workspace (args self)"
  shows "map cc_container_name (k8s_containers m self ctx root_path container_paths)
           = get_container_name self
             # map cc_container_name (or_empty (extra_containers (args self)))"
  by (simp add: k8s_containers_def k8s_volumes_containers_no_mount [OF assms]
        k8s_spark_container_def)

text \<open>
  Claim C1.  With \<^verbatim>\<open>mount_workspace=True\<close>, the workspace volume type \<^verbatim>\<open>EmptyDir\<close> or
  unset, \<^verbatim>\<open>create_git_sync_sidecar=True\<close> and \<^verbatim>\<open>git_sync_repo=None\<close>, the source logs
  \<^verbatim>\<open>GIT_SYNC_REPO invalid\<close> as an error but, unlike the other error sites of the file, does
  not return: the Kubernetes builder (given a Kubernetes context and resolved paths) goes
  on and returns what \<^verbatim>\<open>create()\<close> makes of a group whose generated deployment mounts the
  \<^verbatim>\<open>EmptyDir\<close> workspace volume and whose containers are the primary container and the
  caller's extra containers only.  No git-sync sidecar and no git-sync init container is
  added, as the claim says; the failure the claim asks for does not happen.
\<close>

theorem k8s_git_sync_without_repo_builds:
  assumes ctx: "k8s_build_context = IsK8sBuildContext ctx"
    and root: "workspace_root_path self = Some root_path"
    and paths: "get_container_paths self None = Some container_paths"
    and mount: "mount_workspace (args self)"
    and vtype: "workspace_volume_type (args self) = None
                  \<or> workspace_volume_type (args self) = Some EmptyDir"
    and sidecar: "create_git_sync_sidecar (args self)"
    and repo: "git_sync_repo (args self) = None"
  shows "\<exists>g d spark vol.
           fst (get_k8s_rg create m self k8s_build_context) = create g
         \<and> krg_deployments g = Some (or_empty (extra_deployments (args self)) @ [d])
         \<and> cd_containers d = spark # or_empty (extra_containers (args self))
         \<and> cc_container_name spark = get_container_name self
         \<and> cd_init_containers d = if_nonempty (or_empty (extra_init_containers (args self)))
         \<and> cd_volumes d = Some (or_empty (extra_volumes (args self)) @ [vol])
         \<and> cv_volume_type vol = EMPTY_DIR
         \<and> cv_mount_path vol = workspace_parent container_paths"
proof -
  let ?g = "k8s_create_group m self ctx root_path container_paths"
  let ?d = "k8s_spark_deployment m self ctx root_path container_paths"
  let ?spark = "k8s_spark_container m self ctx root_path container_paths"
  let ?vol = "\<lparr> cv_volume_name = workspace_volume_name_or_default m (args self) (stem root_path),
                cv_app_name = name (args self),
                cv_mount_path = workspace_parent container_paths,
                cv_volume_type = EMPTY_DIR,
                cv_host_path = None \<rparr>"
  have vc: "k8s_volumes_containers m self ctx root_path container_paths
              = (or_empty (extra_volumes (args self)) @ [?vol],
                 or_empty (extra_containers (args self)),
                 or_empty (extra_init_containers (args self)))"
    unfolding k8s_volumes_containers_def
    by (rule k8s_workspace_volume_no_repo [OF mount vtype sidecar repo])
  have "fst (get_k8s_rg create m self k8s_build_context) = create ?g"
    using get_k8s_rg_built(1) [OF root paths] ctx by simp
  moreover have "krg_deployments ?g = Some (or_empty (extra_deployments (args self)) @ [?d])"
    by (rule krg_deployments_create_group)
  moreover have "cd_containers ?d = ?spark # or_empty (extra_containers (args self))"
    by (simp add: k8s_spark_deployment_def k8s_containers_def vc)
  moreover have "cc_container_name ?spark = get_container_name self"
    by (simp add: k8s_spark_container_def)
  moreover have "cd_init_containers ?d
                   = if_nonempty (or_empty (extra_init_containers (args self)))"
    by (simp add: k8s_spark_deployment_def k8s_init_containers_def vc)
  moreover have "cd_volumes ?d = Some (or_empty (extra_volumes (args self)) @ [?vol])"
    by (simp add: k8s_spark_deployment_def k8s_volumes_def vc if_nonempty_def)
  moreover have "cv_volume_type ?vol = EMPTY_DIR" by simp
  moreover have "cv_mount_path ?vol = workspace_parent container_paths" by simp
  ultimately show ?thesis by blast
qed

theorem k8s_git_sync_without_repo_builds_witness:
  "\<exists>g d spark vol.
      fst (get_k8s_rg Some example_modules
             (example_self\<lparr>args := default_args
                \<lparr>mount_workspace := True, create_git_sync_sidecar := True\<rparr>\<rparr>)
             example_k8s_context) = Some g
    \<and> krg_deployments g = Some [d]
    \<and> cd_containers d = [spark]
    \<and> cc_container_name spark = ''server-container''
    \<and> cd_init_containers d = None
    \<and> cd_volumes d = Some [vol]
    \<and> cv_volume_type vol = EMPTY_DIR"
proof -
  let ?self = "example_self\<lparr>args := default_args
                \<lparr>mount_workspace := True, create_git_sync_sidecar := True\<rparr>\<rparr>"
  have ctx: "example_k8s_context
               = IsK8sBuildContext \<lparr> ctx_namespace = ''default'',
                                       ctx_service_account_name = None,
                                       ctx_labels = None \<rparr>"
    by (simp add: example_k8s_context_def)
  have root: "workspace_root_path ?self = Some \<lparr> path_str = ''/home/user/ws'', stem = ''ws'' \<rparr>"
    by (simp add: example_self_def)
  have paths: "get_container_paths ?self None = Some example_container_paths"
    by (simp add: example_self_def)
  have mount: "mount_workspace (args ?self)" by simp
  have vtype: "workspace_volume_type (args ?self) = None
                 \<or> workspace_volume_type (args ?self) = Some EmptyDir"
    by (simp add: default_args_def)
  have sidecar: "create_git_sync_sidecar (args ?self)" by simp
  have repo: "git_sync_repo (args ?self) = None" by (simp add: default_args_def)
  have extras: "or_empty (extra_deployments (args ?self)) = []"
    "or_empty (extra_containers (args ?self)) = []"
    "or_empty (extra_init_containers (args ?self)) = []"
    "or_empty (extra_volumes (args ?self)) = []"
    "get_container_name ?self = ''server-container''"
    by (simp_all add: default_args_def example_self_def or_empty_def)
  from k8s_git_sync_without_repo_builds
         [OF ctx root paths mount vtype sidecar repo, of Some example_modules]
  show ?thesis
    unfolding extras by (simp add: if_nonempty_def) blast
qed

text \<open>
  At such a configuration the builder returns a group (here with \<^verbatim>\<open>create()\<close> returning
  the group it is called on), not an absent result.
\<close>

theorem k8s_git_sync_without_repo_counterexample:
  "fst (get_k8s_rg Some example_modules
          (example_self\<lparr>args := default_args
             \<lparr>mount_workspace := True, create_git_sync_sidecar := True,
              workspace_volume_type := Some EmptyDir, git_sync_repo := None\<rparr>\<rparr>)
          example_k8s_context) \<noteq> None"
  by (simp add: get_k8s_rg_def example_k8s_context_def example_self_def)


text \<open>
  Claim C8, as amended.  The pod annotations of the generated deployment map
  \<^verbatim>\<open>kubectl.kubernetes.io/default-container\<close> to the name of the primary container, which is
  the first container of the deployment, unless the caller's \<^verbatim>\<open>pod_annotations\<close> defines that
  key itself: then the caller's value is the one the deployment carries.
\<close>

theorem k8s_default_container_annotation:
  assumes ctx: "k8s_build_context = IsK8sBuildContext ctx"
    and root: "workspace_root_path self = Some root_path"
    and paths: "get_container_paths self None = Some container_paths"
    and wf: "distinct (dict_keys (or_empty (pod_annotations (args self))))"
  shows "\<exists>g d spark rest.
           fst (get_k8s_rg create m self k8s_build_context) = create g
         \<and> krg_deployments g = Some (or_empty (extra_deployments (args self)) @ [d])
         \<and> cd_containers d = spark # rest
         \<and> cc_container_name spark = get_container_name self
         \<and> dict_get (cd_pod_annotations d) default_container_annotation
             = (case dict_get (or_empty (pod_annotations (args self)))
                       default_container_annotation of
                  Some v \<Rightarrow> Some v
                | None \<Rightarrow> Some (cc_container_name spark))"
proof -
  let ?g = "k8s_create_group m self ctx root_path container_paths"
  let ?d = "k8s_spark_deployment m self ctx root_path container_paths"
  let ?spark = "k8s_spark_container m self ctx root_path container_paths"
  obtain rest where rest: "cd_containers ?d = ?spark # rest"
    using hd_cd_containers_spark_deployment by blast
  have name: "cc_container_name ?spark = get_container_name self"
    by (simp add: k8s_spark_container_def)
  have "fst (get_k8s_rg create m self k8s_build_context) = create ?g"
    using get_k8s_rg_built(1) [OF root paths] ctx by simp
  moreover have "krg_deployments ?g = Some (or_empty (extra_deployments (args self)) @ [?d])"
    by (rule krg_deployments_create_group)
  moreover have "dict_get (cd_pod_annotations ?d) default_container_annotation
             = (case dict_get (or_empty (pod_annotations (args self)))
                       default_container_annotation of
                  Some v \<Rightarrow> Some v
                | None \<Rightarrow> Some (cc_container_name ?spark))"
    unfolding cd_pod_annotations_spark_deployment name
    by (subst dict_get_update_if_not_None [OF wf])
       (simp add: dict_get_def split: option.splits)
  ultimately show ?thesis using rest name by blast
qed

theorem k8s_default_container_annotation_witness:
  "(\<exists>g d spark rest.
      fst (get_k8s_rg Some example_modules example_self example_k8s_context) = Some g
    \<and> krg_deployments g = Some [d]
    \<and> cd_containers d = spark # rest
    \<and> cc_container_name spark = ''server-container''
    \<and> dict_get (cd_pod_annotations d) default_container_annotation = Some ''server-container'')
 \<and> (\<exists>g d.
      fst (get_k8s_rg Some example_modules
             (example_self\<lparr>args := default_args
                \<lparr>pod_annotations := Some [(''team'', ''data'')]\<rparr>\<rparr>)
             example_k8s_context) = Some g
    \<and> krg_deployments g = Some [d]
    \<and> dict_get (cd_pod_annotations d) default_container_annotation = Some ''server-container'')
 \<and> (\<exists>g d.
      fst (get_k8s_rg Some example_modules
             (example_self\<lparr>args := default_args
                \<lparr>pod_annotations :=
                   Some [(''kubectl.kubernetes.io/default-container'', ''sidecar'')]\<rparr>\<rparr>)
             example_k8s_context) = Some g
    \<and> krg_deployments g = Some [d]
    \<and> dict_get (cd_pod_annotations d) default_container_annotation = Some ''sidecar'')"
proof (intro conjI)
  have ctx: "example_k8s_context
               = IsK8sBuildContext \<lparr> ctx_namespace = ''default'',
                                       ctx_service_account_name = None,
                                       ctx_labels = None \<rparr>"
    by (simp add: example_k8s_context_def)
  have root: "workspace_root_path example_self
                = Some \<lparr> path_str = ''/home/user/ws'', stem = ''ws'' \<rparr>"
    by (simp add: example_self_def)
  have paths: "get_container_paths example_self None = Some example_container_paths"
    by (simp add: example_self_def)
  have wf: "distinct (dict_keys (or_empty (pod_annotations (args example_self))))"
    by (simp add: example_self_def default_args_def or_empty_def dict_keys_def)
  have vals: "or_empty (extra_deployments (args example_self)) = []"
    "get_container_name example_self = ''server-container''"
    "dict_get (or_empty (pod_annotations (args example_self))) default_container_annotation = None"
    by (simp_all add: example_self_def default_args_def or_empty_def dict_get_def)
  from k8s_default_container_annotation [OF ctx root paths wf, of Some example_modules]
  show "\<exists>g d spark rest.
      fst (get_k8s_rg Some example_modules example_self example_k8s_context) = Some g
    \<and> krg_deployments g = Some [d]
    \<and> cd_containers d = spark # rest
    \<and> cc_container_name spark = ''server-container''
    \<and> dict_get (cd_pod_annotations d) default_container_annotation = Some ''server-container''"
    unfolding vals by simp metis
next
  let ?self = "example_self\<lparr>args := default_args
                \<lparr>pod_annotations := Some [(''team'', ''data'')]\<rparr>\<rparr>"
  have ctx: "example_k8s_context
               = IsK8sBuildContext \<lparr> ctx_namespace = ''default'',
                                       ctx_service_account_name = None,
                                       ctx_labels = None \<rparr>"
    by (simp add: example_k8s_context_def)
  have root: "workspace_root_path ?self = Some \<lparr> path_str = ''/home/user/ws'', stem = ''ws'' \<rparr>"
    by (simp add: example_self_def)
  have paths: "get_container_paths ?self None = Some example_container_paths"
    by (simp add: example_self_def)
  have wf: "distinct (dict_keys (or_empty (pod_annotations (args ?self))))"
    by (simp add: or_empty_def dict_keys_def)
  have vals: "or_empty (extra_deployments (args ?self)) = []"
    "get_container_name ?self = ''server-container''"
    "dict_get (or_empty (pod_annotations (args ?self))) default_container_annotation = None"
    by (simp_all add: example_self_def default_args_def or_empty_def dict_get_def
          default_container_annotation_def)
  from k8s_default_container_annotation [OF ctx root paths wf, of Some example_modules]
  show "\<exists>g d.
      fst (get_k8s_rg Some example_modules ?self example_k8s_context) = Some g
    \<and> krg_deployments g = Some [d]
    \<and> dict_get (cd_pod_annotations d) default_container_annotation = Some ''server-container''"
    unfolding vals by simp metis
next
  let ?self = "example_self\<lparr>args := default_args
                \<lparr>pod_annotations :=
                   Some [(''kubectl.kubernetes.io/default-container'', ''sidecar'')]\<rparr>\<rparr>"
  have ctx: "example_k8s_context
               = IsK8sBuildContext \<lparr> ctx_namespace = ''default'',
                                       ctx_service_account_name = None,
                                       ctx_labels = None \<rparr>"
    by (simp add: example_k8s_context_def)
  have root: "workspace_root_path ?self = Some \<lparr> path_str = ''/home/user/ws'', stem = ''ws'' \<rparr>"
    by (simp add: example_self_def)
  have paths: "get_container_paths ?self None = Some example_container_paths"
    by (simp add: example_self_def)
  have wf: "distinct (dict_keys (or_empty (pod_annotations (args ?self))))"
    by (simp add: or_empty_def dict_keys_def)
  have vals: "or_empty (extra_deployments (args ?self)) = []"
    "dict_get (or_empty (pod_annotations (args ?self))) default_container_annotation
       = Some ''sidecar''"
    by (simp_all add: example_self_def default_args_def or_empty_def dict_get_def
          default_container_annotation_def)
  from k8s_default_container_annotation [OF ctx root paths wf, of Some example_modules]
  show "\<exists>g d.
      fst (get_k8s_rg Some example_modules ?self example_k8s_context) = Some g
    \<and> krg_deployments g = Some [d]
    \<and> dict_get (cd_pod_annotations d) default_container_annotation = Some ''sidecar''"
    unfolding vals by simp metis
qed

text \<open>
  The claim as stated fails when the caller's \<^verbatim>\<open>pod_annotations\<close> holds the key: the
  annotation then names the caller's value and not the primary container.
\<close>

theorem k8s_default_container_annotation_counterexample:
  "fst (get_k8s_rg Some example_modules
          (example_self\<lparr>args := default_args
             \<lparr>pod_annotations :=
                Some [(''kubectl.kubernetes.io/default-container'', ''sidecar'')]\<rparr>\<rparr>)
          example_k8s_context)
     = Some (k8s_create_group example_modules
               (example_self\<lparr>args := default_args
                  \<lparr>pod_annotations :=
                     Some [(''kubectl.kubernetes.io/default-container'', ''sidecar'')]\<rparr>\<rparr>)
               \<lparr> ctx_namespace = ''default'', ctx_service_account_name = None,
                 ctx_labels = None \<rparr>
               \<lparr> path_str = ''/home/user/ws'', stem = ''ws'' \<rparr> example_container_paths)
 \<and> krg_deployments
       (k8s_create_group example_modules
          (example_self\<lparr>args := default_args
             \<lparr>pod_annotations :=
                Some [(''kubectl.kubernetes.io/default-container'', ''sidecar'')]\<rparr>\<rparr>)
          \<lparr> ctx_namespace = ''default'', ctx_service_account_name = None,
            ctx_labels = None \<rparr>
          \<lparr> path_str = ''/home/user/ws'', stem = ''ws'' \<rparr> example_container_paths)
     = Some [k8s_spark_deployment example_modules
               (example_self\<lparr>args := default_args
                  \<lparr>pod_annotations :=
                     Some [(''kubectl.kubernetes.io/default-container'', ''sidecar'')]\<rparr>\<rparr>)
               \<lparr> ctx_namespace = ''default'', ctx_service_account_name = None,
                 ctx_labels = None \<rparr>
               \<lparr> path_str = ''/home/user/ws'', stem = ''ws'' \<rparr> example_container_paths]
 \<and> map cc_container_name
       (cd_containers
          (k8s_spark_deployment example_modules
             (example_self\<lparr>args := default_args
                \<lparr>pod_annotations :=
                   Some [(''kubectl.kubernetes.io/default-container'', ''sidecar'')]\<rparr>\<rparr>)
             \<lparr> ctx_namespace = ''default'', ctx_service_account_name = None,
               ctx_labels = None \<rparr>
             \<lparr> path_str = ''/home/user/ws'', stem = ''ws'' \<rparr> example_container_paths))
     = [''server-container'']
 \<and> dict_get
       (cd_pod_annotations
          (k8s_spark_deployment example_modules
             (example_self\<lparr>args := default_args
                \<lparr>pod_annotations :=
                   Some [(''kubectl.kubernetes.io/default-container'', ''sidecar'')]\<rparr>\<rparr>)
             \<lparr> ctx_namespace = ''default'', ctx_service_account_name = None,
               ctx_labels = None \<rparr>
             \<lparr> path_str = ''/home/user/ws'', stem = ''ws'' \<rparr> example_container_paths))
       ''kubectl.kubernetes.io/default-container''
     = Some ''sidecar''"
proof -
  let ?self = "example_self\<lparr>args := default_args
                \<lparr>pod_annotations :=
                   Some [(''kubectl.kubernetes.io/default-container'', ''sidecar'')]\<rparr>\<rparr>"
  let ?ctx = "\<lparr> ctx_namespace = ''default'', ctx_service_account_name = None,
                ctx_labels = None \<rparr>"
  let ?p = "\<lparr> path_str = ''/home/user/ws'', stem = ''ws'' \<rparr>"
  let ?g = "k8s_create_group example_modules ?self ?ctx ?p example_container_paths"
  let ?d = "k8s_spark_deployment example_modules ?self ?ctx ?p example_container_paths"
  have nm: "\<not> mount_workspace (args ?self)" by (simp add: default_args_def)
  have "fst (get_k8s_rg Some example_modules ?self example_k8s_context) = Some ?g"
    by (simp add: get_k8s_rg_def example_k8s_context_def example_self_def)
  moreover have "krg_deployments ?g = Some [?d]"
    by (simp add: krg_deployments_create_group or_empty_def default_args_def)
  moreover have "map cc_container_name (cd_containers ?d) = [''server-container'']"
    unfolding k8s_spark_deployment_def CreateDeployment.simps
      k8s_container_names_no_mount [OF nm]
    by (simp add: example_self_def default_args_def or_empty_def)
  moreover have "dict_get (cd_pod_annotations ?d) ''kubectl.kubernetes.io/default-container''
        = Some ''sidecar''"
    by (simp add: cd_pod_annotations_spark_deployment update_if_not_None_def
          default_container_annotation_def dict_get_def)
  ultimately show ?thesis by (intro conjI)
qed

section \<open>The composed environment\<close>

lemma get_docker_rg_environment:
  assumes "get_docker_rg m self ctx = (Some rg, self')"
    and "get_container_paths self None = Some container_paths"
  shows "\<exists>c. drg_containers rg = [c]
           \<and> dc_environment c
               = set_container_env self
                   (set_aws_env_vars self
                      (python_runtime_env m (args self) container_paths ''docker''))"
  using assms
  by (auto simp: get_docker_rg_def Let_def split: build_context.splits option.splits)

lemma dict_get_k8s_container_env:
  assumes "distinct (dict_keys (aws_env_vars self))"
    and "distinct (dict_keys (or_empty (get_env_data self)))"
    and "distinct (dict_keys (or_empty (env (args self))))"
  shows "dict_get (k8s_container_env m self container_paths) k
           = compose_spec
               [ python_runtime_env m (args self) container_paths ''kubernetes'',
                 aws_env_vars self,
                 or_empty (get_env_data self),
                 or_empty (env (args self)) ] k"
  unfolding k8s_container_env_def set_aws_env_vars_def
  by (simp add: dict_get_update_if_not_None assms dict_get_update split: option.splits)

lemma dict_get_docker_container_env:
  assumes "distinct (dict_keys (aws_env_vars self))"
    and "distinct (dict_keys (or_empty (get_env_data self)))"
    and "distinct (dict_keys (or_empty (get_secret_data self)))"
    and "distinct (dict_keys (or_empty (env (args self))))"
  shows "dict_get (set_container_env self (set_aws_env_vars self base)) k
           = compose_spec
               [ base,
                 aws_env_vars self,
                 or_empty (get_env_data self),
                 or_empty (get_secret_data self),
                 or_empty (env (args self)) ] k"
  unfolding set_container_env_def set_aws_env_vars_def
  by (simp add: dict_get_update_if_not_None assms dict_get_update split: option.splits)


text \<open>
  Claim C5.  The environment placed in the generated ConfigMap by the Kubernetes builder is
  composed, from lowest to highest precedence, of the static runtime markers, the
  AWS-derived variables, the variables of the env file and the inline \<^verbatim>\<open>env\<close> of the
  configuration, a later source overwriting every key it also defines: an inline entry
  always gives the value, and an env-file entry does for a key the inline map lacks.  The
  environment of the Docker container follows the same order, with the secrets between the
  env file and the inline map as section 4.2 of the specification has them (the helpers
  \<^verbatim>\<open>set_aws_env_vars\<close> and \<^verbatim>\<open>set_container_env\<close> are modelled from that section).  The
  source dicts are Python dicts: their keys are distinct.
\<close>

theorem container_env_precedence:
  assumes kctx: "k8s_build_context = IsK8sBuildContext kctx"
    and dctx: "docker_build_context = IsDockerBuildContext dctx"
    and root: "workspace_root_path self = Some root_path"
    and paths: "get_container_paths self None = Some container_paths"
    and vol: "\<not> (mount_workspace (args self)
                 \<and> (\<exists>v. workspace_volume_type (args self) = Some (OtherVolumeType v)))"
    and wf_aws: "distinct (dict_keys (aws_env_vars self))"
    and wf_file: "distinct (dict_keys (or_empty (get_env_data self)))"
    and wf_secret: "distinct (dict_keys (or_empty (get_secret_data self)))"
    and wf_inline: "distinct (dict_keys (or_empty (env (args self))))"
  shows "(\<exists>g cm.
            fst (get_k8s_rg create m self k8s_build_context) = create g
          \<and> krg_config_maps g = Some (or_empty (extra_configmaps (args self)) @ [cm])
          \<and> (\<forall>k. dict_get (ccm_data cm) k
                   = compose_spec
                       [ python_runtime_env m (args self) container_paths ''kubernetes'',
                         aws_env_vars self,
                         or_empty (get_env_data self),
                         or_empty (env (args self)) ] k)
          \<and> (\<forall>k v. dict_get (or_empty (env (args self))) k = Some v
                   \<longrightarrow> dict_get (ccm_data cm) k = Some v)
          \<and> (\<forall>k v. dict_get (or_empty (env (args self))) k = None
                     \<and> dict_get (or_empty (get_env_data self)) k = Some v
                   \<longrightarrow> dict_get (ccm_data cm) k = Some v))
       \<and> (\<exists>rg c.
            fst (get_docker_rg m self docker_build_context) = Some rg
          \<and> drg_containers rg = [c]
          \<and> (\<forall>k. dict_get (dc_environment c) k
                   = compose_spec
                       [ python_runtime_env m (args self) container_paths ''docker'',
                         aws_env_vars self,
                         or_empty (get_env_data self),
                         or_empty (get_secret_data self),
                         or_empty (env (args self)) ] k)
          \<and> (\<forall>k v. dict_get (or_empty (env (args self))) k = Some v
                   \<longrightarrow> dict_get (dc_environment c) k = Some v))"
proof (rule conjI)
  let ?g = "k8s_create_group m self kctx root_path container_paths"
  let ?cm = "k8s_container_env_cm m self kctx container_paths"
  have data: "ccm_data ?cm = k8s_container_env m self container_paths"
    by (simp add: k8s_container_env_cm_def)
  note look = dict_get_k8s_container_env [OF wf_aws wf_file wf_inline, of m container_paths]
  have "fst (get_k8s_rg create m self k8s_build_context) = create ?g"
    using get_k8s_rg_built(1) [OF root paths] kctx by simp
  moreover have "krg_config_maps ?g = Some (or_empty (extra_configmaps (args self)) @ [?cm])"
    by (rule krg_config_maps_create_group)
  moreover have "\<forall>k. dict_get (ccm_data ?cm) k
                   = compose_spec
                       [ python_runtime_env m (args self) container_paths ''kubernetes'',
                         aws_env_vars self,
                         or_empty (get_env_data self),
                         or_empty (env (args self)) ] k"
    unfolding data using look by blast
  moreover have "\<forall>k v. dict_get (or_empty (env (args self))) k = Some v
                   \<longrightarrow> dict_get (ccm_data ?cm) k = Some v"
    unfolding data look by simp
  moreover have "\<forall>k v. dict_get (or_empty (env (args self))) k = None
                     \<and> dict_get (or_empty (get_env_data self)) k = Some v
                   \<longrightarrow> dict_get (ccm_data ?cm) k = Some v"
    unfolding data look by simp
  ultimately show "\<exists>g cm.
            fst (get_k8s_rg create m self k8s_build_context) = create g
          \<and> krg_config_maps g = Some (or_empty (extra_configmaps (args self)) @ [cm])
          \<and> (\<forall>k. dict_get (ccm_data cm) k
                   = compose_spec
                       [ python_runtime_env m (args self) container_paths ''kubernetes'',
                         aws_env_vars self,
                         or_empty (get_env_data self),
                         or_empty (env (args self)) ] k)
          \<and> (\<forall>k v. dict_get (or_empty (env (args self))) k = Some v
                   \<longrightarrow> dict_get (ccm_data cm) k = Some v)
          \<and> (\<forall>k v. dict_get (or_empty (env (args self))) k = None
                     \<and> dict_get (or_empty (get_env_data self)) k = Some v
                   \<longrightarrow> dict_get (ccm_data cm) k = Some v)"
    by blast
next
  obtain rg where rg: "fst (get_docker_rg m self docker_build_context) = Some rg"
    using get_docker_rg_returns [OF dctx root paths vol] by blast
  then have "get_docker_rg m self docker_build_context
               = (Some rg, snd (get_docker_rg m self docker_build_context))"
    by (metis prod.collapse)
  from get_docker_rg_environment [OF this paths]
  obtain c where c: "drg_containers rg = [c]"
    and e: "dc_environment c
              = set_container_env self
                  (set_aws_env_vars self
                     (python_runtime_env m (args self) container_paths ''docker''))"
    by blast
  note look = dict_get_docker_container_env [OF wf_aws wf_file wf_secret wf_inline]
  have "\<forall>k. dict_get (dc_environment c) k
                   = compose_spec
                       [ python_runtime_env m (args self) container_paths ''docker'',
                         aws_env_vars self,
                         or_empty (get_env_data self),
                         or_empty (get_secret_data self),
                         or_empty (env (args self)) ] k"
    unfolding e using look by blast
  moreover have "\<forall>k v. dict_get (or_empty (env (args self))) k = Some v
                   \<longrightarrow> dict_get (dc_environment c) k = Some v"
    unfolding e look by simp
  ultimately show "\<exists>rg c.
            fst (get_docker_rg m self docker_build_context) = Some rg
          \<and> drg_containers rg = [c]
          \<and> (\<forall>k. dict_get (dc_environment c) k
                   = compose_spec
                       [ python_runtime_env m (args self) container_paths ''docker'',
                         aws_env_vars self,
                         or_empty (get_env_data self),
                         or_empty (get_secret_data self),
                         or_empty (env (args self)) ] k)
          \<and> (\<forall>k v. dict_get (or_empty (env (args self))) k = Some v
                   \<longrightarrow> dict_get (dc_environment c) k = Some v)"
    using rg c by blast
qed

theorem container_env_precedence_witness:
  "(\<exists>g cm.
      fst (get_k8s_rg Some example_modules
             (example_self
                \<lparr>args := default_args\<lparr>env := Some [(''LOG_LEVEL'', ''debug'')]\<rparr>,
                 get_env_data :=
                   Some [(''LOG_LEVEL'', ''info''), (''AWS_REGION'', ''eu-west-1'')]\<rparr>)
             example_k8s_context) = Some g
    \<and> krg_config_maps g = Some [cm]
    \<and> dict_get (ccm_data cm) ''LOG_LEVEL'' = Some ''debug''
    \<and> dict_get (ccm_data cm) ''AWS_REGION'' = Some ''eu-west-1''
    \<and> dict_get (ccm_data cm) ''PHIDATA_RUNTIME'' = Some ''kubernetes'')
 \<and> (\<exists>rg c.
      fst (get_docker_rg example_modules
             (example_self
                \<lparr>args := default_args\<lparr>env := Some [(''LOG_LEVEL'', ''debug'')]\<rparr>,
                 get_env_data :=
                   Some [(''LOG_LEVEL'', ''info''), (''AWS_REGION'', ''eu-west-1'')]\<rparr>)
             example_docker_context) = Some rg
    \<and> drg_containers rg = [c]
    \<and> dict_get (dc_environment c) ''LOG_LEVEL'' = Some ''debug''
    \<and> dict_get (dc_environment c) ''AWS_REGION'' = Some ''eu-west-1''
    \<and> dict_get (dc_environment c) ''PHIDATA_RUNTIME'' = Some ''docker'')"
proof -
  let ?self = "example_self
                \<lparr>args := default_args\<lparr>env := Some [(''LOG_LEVEL'', ''debug'')]\<rparr>,
                 get_env_data :=
                   Some [(''LOG_LEVEL'', ''info''), (''AWS_REGION'', ''eu-west-1'')]\<rparr>"
  let ?file = "[(''LOG_LEVEL'', ''info''), (''AWS_REGION'', ''eu-west-1'')]"
  have kctx: "example_k8s_context
               = IsK8sBuildContext \<lparr> ctx_namespace = ''default'',
                                       ctx_service_account_name = None,
                                       ctx_labels = None \<rparr>"
    by (simp add: example_k8s_context_def)
  have dctx: "example_docker_context = IsDockerBuildContext \<lparr> ctx_network = ''phi'' \<rparr>"
    by (simp add: example_docker_context_def)
  have root: "workspace_root_path ?self = Some \<lparr> path_str = ''/home/user/ws'', stem = ''ws'' \<rparr>"
    by (simp add: example_self_def)
  have paths: "get_container_paths ?self None = Some example_container_paths"
    by (simp add: example_self_def)
  have vol: "\<not> (mount_workspace (args ?self)
                 \<and> (\<exists>v. workspace_volume_type (args ?self) = Some (OtherVolumeType v)))"
    by (simp add: default_args_def)
  have wf_aws: "distinct (dict_keys (aws_env_vars ?self))"
    by (simp add: example_self_def dict_keys_def)
  have wf_file: "distinct (dict_keys (or_empty (get_env_data ?self)))"
    by (simp add: or_empty_def dict_keys_def)
  have wf_secret: "distinct (dict_keys (or_empty (get_secret_data ?self)))"
    by (simp add: example_self_def or_empty_def dict_keys_def)
  have wf_inline: "distinct (dict_keys (or_empty (env (args ?self))))"
    by (simp add: or_empty_def dict_keys_def)
  have vals: "or_empty (extra_configmaps (args ?self)) = []"
    "aws_env_vars ?self = [(''AWS_REGION'', ''us-east-1'')]"
    "or_empty (get_env_data ?self) = ?file"
    "or_empty (get_secret_data ?self) = []"
    "or_empty (env (args ?self)) = [(''LOG_LEVEL'', ''debug'')]"
    by (simp_all add: example_self_def default_args_def or_empty_def)
  have base: "dict_get (python_runtime_env example_modules (args ?self)
                          example_container_paths runtime) ''PHIDATA_RUNTIME'' = Some runtime"
    for runtime
    by (simp add: python_runtime_env_def runtime_env_entries_def dict_literal_def
          example_modules_def dict_get_def)
  note inst = container_env_precedence
       [OF kctx dctx root paths vol wf_aws wf_file wf_secret wf_inline, of Some example_modules]
  from inst [THEN conjunct1] obtain g cm where
    k: "fst (get_k8s_rg Some example_modules ?self example_k8s_context) = Some g"
       "krg_config_maps g = Some [cm]"
       "\<forall>k. dict_get (ccm_data cm) k
                   = compose_spec
                       [ python_runtime_env example_modules (args ?self)
                           example_container_paths ''kubernetes'',
                         [(''AWS_REGION'', ''us-east-1'')], ?file,
                         [(''LOG_LEVEL'', ''debug'')] ] k"
    unfolding vals by auto
  from inst [THEN conjunct2] obtain rg c where
    d: "fst (get_docker_rg example_modules ?self example_docker_context) = Some rg"
       "drg_containers rg = [c]"
       "\<forall>k. dict_get (dc_environment c) k
                   = compose_spec
                       [ python_runtime_env example_modules (args ?self)
                           example_container_paths ''docker'',
                         [(''AWS_REGION'', ''us-east-1'')], ?file, [],
                         [(''LOG_LEVEL'', ''debug'')] ] k"
    unfolding vals by auto
  have "dict_get (ccm_data cm) ''LOG_LEVEL'' = Some ''debug''"
       "dict_get (ccm_data cm) ''AWS_REGION'' = Some ''eu-west-1''"
       "dict_get (ccm_data cm) ''PHIDATA_RUNTIME'' = Some ''kubernetes''"
       "dict_get (dc_environment c) ''LOG_LEVEL'' = Some ''debug''"
       "dict_get (dc_environment c) ''AWS_REGION'' = Some ''eu-west-1''"
       "dict_get (dc_environment c) ''PHIDATA_RUNTIME'' = Some ''docker''"
    using k(3) d(3) base by (simp_all add: dict_get_def)
  with k(1,2) d(1,2) show ?thesis by blast
qed

section \<open>Properties of the AWS builder\<close>

text \<open>
  The loop over the subnets ends with the one VPC id when all subnets share it and raises
  at the first subnet of another VPC.
\<close>

lemma vpc_ids_loop_same:
  "\<forall>s \<in> set ss. vpc_of s = v \<Longrightarrow> vpc_ids_loop vpc_of [v] ss = Inr [v]"
  by (induction ss) (simp_all add: set_add_def)

lemma vpc_ids_loop_differ:
  "\<exists>s \<in> set ss. vpc_of s \<noteq> v
     \<Longrightarrow> vpc_ids_loop vpc_of [v] ss = Inl (ValueError ''Subnets must be in the same VPC'')"
proof (induction ss)
  case Nil
  then show ?case by simp
next
  case (Cons s ss)
  show ?case
  proof (cases "vpc_of s = v")
    case True
    with Cons.prems have "\<exists>s \<in> set ss. vpc_of s \<noteq> v" by auto
    with Cons.IH True show ?thesis by (simp add: set_add_def)
  next
    case False
    then show ?thesis by (simp add: set_add_def)
  qed
qed

lemma vpc_ids_loop_from_empty:
  "vpc_ids_loop vpc_of [] (s # ss)
     = (if \<forall>t \<in> set ss. vpc_of t = vpc_of s then Inr [vpc_of s]
        else Inl (ValueError ''Subnets must be in the same VPC''))"
  using vpc_ids_loop_same [of ss vpc_of "vpc_of s"] vpc_ids_loop_differ [of ss vpc_of "vpc_of s"]
  by (auto simp: set_add_def)



lemma vpc_id_from_subnets_same:
  assumes "ss \<noteq> []" and "\<forall>s \<in> set ss. get_vpc_id m s = v"
  shows "vpc_id_from_subnets m (Some ss) = Inr v"
proof -
  obtain s rest where ss: "ss = s # rest" using assms(1) by (cases ss) auto
  with assms(2) show ?thesis
    by (simp add: vpc_id_from_subnets_def vpc_ids_loop_from_empty set_pop_def
          del: vpc_ids_loop.simps)
qed

lemma vpc_id_from_subnets_differ:
  assumes "\<exists>s1 \<in> set ss. \<exists>s2 \<in> set ss. get_vpc_id m s1 \<noteq> get_vpc_id m s2"
  shows "vpc_id_from_subnets m (Some ss)
           = Inl (ValueError ''Subnets must be in the same VPC'')"
proof -
  from assms obtain s rest where ss: "ss = s # rest" by (cases ss) auto
  have "\<not> (\<forall>t \<in> set rest. get_vpc_id m t = get_vpc_id m s)"
  proof
    assume "\<forall>t \<in> set rest. get_vpc_id m t = get_vpc_id m s"
    then have "\<forall>t \<in> set ss. get_vpc_id m t = get_vpc_id m s" using ss by simp
    with assms show False by metis
  qed
  with ss show ?thesis
    by (auto simp: vpc_id_from_subnets_def vpc_ids_loop_from_empty simp del: vpc_ids_loop.simps)
qed


lemma get_aws_rg_raises:
  assumes "workspace_root_path self = Some root_path"
    and "get_container_paths self (Some False) = Some container_paths"
    and "vpc_id_from_subnets m (aws_subnets (args self)) = Inl e"
  shows "get_aws_rg m self aws_build_context = Inl e"
  using assms by (simp add: get_aws_rg_def Let_def)

lemma get_aws_rg_builds:
  assumes "workspace_root_path self = Some root_path"
    and "get_container_paths self (Some False) = Some container_paths"
    and "vpc_id_from_subnets m (aws_subnets (args self)) = Inr vpc_id"
  shows "\<exists>rg tg td c.
           get_aws_rg m self aws_build_context = Inr (Some rg)
         \<and> arg_target_groups rg = [tg] \<and> tg_vpc_id tg = vpc_id
         \<and> arg_ecs_task_definitions rg = [td] \<and> etd_containers td = [c]
         \<and> ecn_log_configuration c = ecs_log_configuration self"
  using assms by (simp add: get_aws_rg_def Let_def)

lemma get_aws_rg_Some:
  assumes "get_aws_rg m self aws_build_context = Inr (Some rg)"
  shows "\<exists>td c. arg_ecs_task_definitions rg = [td] \<and> etd_containers td = [c]
           \<and> ecn_log_configuration c = ecs_log_configuration self"
  using assms
  by (auto simp: get_aws_rg_def Let_def split: option.splits sum.splits)


text \<open>
  Claim C4.  Once the workspace root and the container paths have resolved and
  \<^verbatim>\<open>aws_subnets\<close> is a non-empty list: if every subnet resolves to the same VPC the AWS
  builder returns a resource group whose target group has that VPC id; if two subnets
  resolve to different VPCs it raises \<^verbatim>\<open>ValueError("Subnets must be in the same VPC")\<close> and
  returns nothing.
\<close>

theorem aws_vpc_from_subnets:
  assumes root: "workspace_root_path self = Some root_path"
    and paths: "get_container_paths self (Some False) = Some container_paths"
    and subnets: "aws_subnets (args self) = Some ss"
    and nonempty: "ss \<noteq> []"
  shows "((\<forall>s \<in> set ss. get_vpc_id m s = vpc) \<longrightarrow>
            (\<exists>rg tg. get_aws_rg m self aws_build_context = Inr (Some rg)
                   \<and> arg_target_groups rg = [tg] \<and> tg_vpc_id tg = vpc))
       \<and> ((\<exists>s1 \<in> set ss. \<exists>s2 \<in> set ss. get_vpc_id m s1 \<noteq> get_vpc_id m s2) \<longrightarrow>
            get_aws_rg m self aws_build_context
              = Inl (ValueError ''Subnets must be in the same VPC''))"
proof (intro conjI impI)
  assume "\<forall>s \<in> set ss. get_vpc_id m s = vpc"
  then have "vpc_id_from_subnets m (aws_subnets (args self)) = Inr vpc"
    using vpc_id_from_subnets_same [OF nonempty] subnets by simp
  from get_aws_rg_builds [OF root paths this, of aws_build_context]
  show "\<exists>rg tg. get_aws_rg m self aws_build_context = Inr (Some rg)
                   \<and> arg_target_groups rg = [tg] \<and> tg_vpc_id tg = vpc"
    by blast
next
  assume "\<exists>s1 \<in> set ss. \<exists>s2 \<in> set ss. get_vpc_id m s1 \<noteq> get_vpc_id m s2"
  then have "vpc_id_from_subnets m (aws_subnets (args self))
               = Inl (ValueError ''Subnets must be in the same VPC'')"
    using vpc_id_from_subnets_differ subnets by simp
  from get_aws_rg_raises [OF root paths this]
  show "get_aws_rg m self aws_build_context
          = Inl (ValueError ''Subnets must be in the same VPC'')" .
qed

theorem aws_vpc_from_subnets_witness:
  "(\<exists>rg tg.
      get_aws_rg example_modules
        (example_self\<lparr>args := default_args\<lparr>aws_subnets := Some [''subnet-a'', ''subnet-b'']\<rparr>\<rparr>)
        example_aws_context = Inr (Some rg)
    \<and> arg_target_groups rg = [tg] \<and> tg_vpc_id tg = Some ''vpc-1'')
 \<and> get_aws_rg example_modules
      (example_self\<lparr>args := default_args\<lparr>aws_subnets := Some [''subnet-a'', ''subnet-c'']\<rparr>\<rparr>)
      example_aws_context = Inl (ValueError ''Subnets must be in the same VPC'')"
proof (rule conjI)
  let ?self = "example_self\<lparr>args := default_args\<lparr>aws_subnets := Some [''subnet-a'', ''subnet-b'']\<rparr>\<rparr>"
  have root: "workspace_root_path ?self = Some \<lparr> path_str = ''/home/user/ws'', stem = ''ws'' \<rparr>"
    by (simp add: example_self_def)
  have paths: "get_container_paths ?self (Some False) = Some example_container_paths"
    by (simp add: example_self_def)
  have subnets: "aws_subnets (args ?self) = Some [''subnet-a'', ''subnet-b'']" by simp
  have same: "\<forall>s \<in> set [''subnet-a'', ''subnet-b'']. get_vpc_id example_modules s = Some ''vpc-1''"
    by (simp add: example_modules_def)
  from aws_vpc_from_subnets [OF root paths subnets, of example_modules "Some ''vpc-1''"
         example_aws_context] same
  show "\<exists>rg tg. get_aws_rg example_modules ?self example_aws_context = Inr (Some rg)
          \<and> arg_target_groups rg = [tg] \<and> tg_vpc_id tg = Some ''vpc-1''"
    by blast
next
  let ?self = "example_self\<lparr>args := default_args\<lparr>aws_subnets := Some [''subnet-a'', ''subnet-c'']\<rparr>\<rparr>"
  have root: "workspace_root_path ?self = Some \<lparr> path_str = ''/home/user/ws'', stem = ''ws'' \<rparr>"
    by (simp add: example_self_def)
  have paths: "get_container_paths ?self (Some False) = Some example_container_paths"
    by (simp add: example_self_def)
  have subnets: "aws_subnets (args ?self) = Some [''subnet-a'', ''subnet-c'']" by simp
  have differ: "\<exists>s1 \<in> set [''subnet-a'', ''subnet-c'']. \<exists>s2 \<in> set [''subnet-a'', ''subnet-c''].
                  get_vpc_id example_modules s1 \<noteq> get_vpc_id example_modules s2"
    by (auto simp: example_modules_def)
  from aws_vpc_from_subnets [OF root paths subnets, of example_modules "Some ''vpc-1''"
         example_aws_context] differ
  show "get_aws_rg example_modules ?self example_aws_context
          = Inl (ValueError ''Subnets must be in the same VPC'')"
    by blast
qed

text \<open>
  Claim C9.  Whenever the AWS builder returns a resource group, its task definition has one
  container, whose log configuration is exactly \<^verbatim>\<open>logDriver: "awslogs"\<close> with the options
  \<^verbatim>\<open>awslogs-group\<close> = the application name, \<^verbatim>\<open>awslogs-region\<close> = \<^verbatim>\<open>self.aws_region\<close>,
  \<^verbatim>\<open>awslogs-create-group\<close> = \<^verbatim>\<open>"true"\<close> and \<^verbatim>\<open>awslogs-stream-prefix\<close> = the application
  name.
\<close>

theorem ecs_log_configuration_shape:
  assumes "get_aws_rg m self aws_build_context = Inr (Some rg)"
  shows "\<exists>td c.
           arg_ecs_task_definitions rg = [td]
         \<and> etd_containers td = [c]
         \<and> ecn_log_configuration c
             = [ (''logDriver'', PyStr ''awslogs''),
                 (''options'',
                  PyDict
                    [ (''awslogs-group'', PyStr (name (args self))),
                      (''awslogs-region'',
                         (case aws_region self of None \<Rightarrow> PyNone | Some r \<Rightarrow> PyStr r)),
                      (''awslogs-create-group'', PyStr ''true''),
                      (''awslogs-stream-prefix'', PyStr (name (args self))) ]) ]"
  using get_aws_rg_Some [OF assms] by (simp add: ecs_log_configuration_def)

theorem ecs_log_configuration_shape_witness:
  "\<exists>rg td c.
      get_aws_rg example_modules
        (example_self\<lparr>args := default_args\<lparr>aws_subnets := Some [''subnet-a'', ''subnet-b'']\<rparr>\<rparr>)
        example_aws_context = Inr (Some rg)
    \<and> arg_ecs_task_definitions rg = [td]
    \<and> etd_containers td = [c]
    \<and> ecn_log_configuration c
        = [ (''logDriver'', PyStr ''awslogs''),
            (''options'',
             PyDict
               [ (''awslogs-group'', PyStr ''server''),
                 (''awslogs-region'', PyStr ''us-east-1''),
                 (''awslogs-create-group'', PyStr ''true''),
                 (''awslogs-stream-prefix'', PyStr ''server'') ]) ]"
proof -
  let ?self = "example_self\<lparr>args := default_args\<lparr>aws_subnets := Some [''subnet-a'', ''subnet-b'']\<rparr>\<rparr>"
  have root: "workspace_root_path ?self = Some \<lparr> path_str = ''/home/user/ws'', stem = ''ws'' \<rparr>"
    by (simp add: example_self_def)
  have paths: "get_container_paths ?self (Some False) = Some example_container_paths"
    by (simp add: example_self_def)
  have "vpc_id_from_subnets example_modules (aws_subnets (args ?self)) = Inr (Some ''vpc-1'')"
    by (simp add: vpc_id_from_subnets_same example_modules_def)
  from get_aws_rg_builds [OF root paths this, of example_aws_context]
  obtain rg where rg: "get_aws_rg example_modules ?self example_aws_context = Inr (Some rg)"
    by blast
  have vals: "name (args ?self) = ''server''" "aws_region ?self = Some ''us-east-1''"
    by (simp_all add: example_self_def default_args_def)
  from ecs_log_configuration_shape [OF rg] rg show ?thesis
    unfolding vals by simp
qed



section \<open>The build context and the state of the arguments\<close>

text \<open>
  The Docker and Kubernetes builders return \<^verbatim>\<open>None\<close>, and change nothing, for a context that
  is not of their kind.  The AWS builder does not depend on its context.
\<close>

lemma get_docker_rg_wrong_context:
  assumes "\<forall>d. docker_build_context \<noteq> IsDockerBuildContext d"
  shows "get_docker_rg m self docker_build_context = (None, self)"
  using assms by (cases docker_build_context) (simp_all add: get_docker_rg_def)

lemma get_k8s_rg_wrong_context:
  assumes "\<forall>c. k8s_build_context \<noteq> IsK8sBuildContext c"
  shows "get_k8s_rg create m self k8s_build_context = (None, self, k8s_build_context)"
  using assms by (cases k8s_build_context) (simp_all add: get_k8s_rg_def)

lemma get_aws_rg_any_context:
  "get_aws_rg m self aws_build_context = get_aws_rg m self aws_build_context'"
  by (simp add: get_aws_rg_def)

text \<open>
  Claim C2.  A build context that is not the variant of the builder gives an absent result
  for the Docker and the Kubernetes builder.  The AWS builder has no such check: called with
  \<^verbatim>\<open>None\<close> or with a Docker context, a configuration whose subnets share a VPC still yields
  a full resource group.
\<close>

theorem get_aws_rg_ignores_build_context:
  "(\<exists>rg. get_aws_rg example_modules
            (example_self\<lparr>args := default_args
               \<lparr>aws_subnets := Some [''subnet-a'', ''subnet-b'']\<rparr>\<rparr>)
            NoneContext = Inr (Some rg))
 \<and> (\<exists>rg. get_aws_rg example_modules
            (example_self\<lparr>args := default_args
               \<lparr>aws_subnets := Some [''subnet-a'', ''subnet-b'']\<rparr>\<rparr>)
            example_docker_context = Inr (Some rg))
 \<and> get_docker_rg example_modules example_self example_aws_context = (None, example_self)
 \<and> get_k8s_rg Some example_modules example_self example_aws_context
      = (None, example_self, example_aws_context)"
proof -
  let ?self = "example_self\<lparr>args := default_args
               \<lparr>aws_subnets := Some [''subnet-a'', ''subnet-b'']\<rparr>\<rparr>"
  have root: "workspace_root_path ?self = Some \<lparr> path_str = ''/home/user/ws'', stem = ''ws'' \<rparr>"
    by (simp add: example_self_def)
  have paths: "get_container_paths ?self (Some False) = Some example_container_paths"
    by (simp add: example_self_def)
  have vpc: "vpc_id_from_subnets example_modules (aws_subnets (args ?self)) = Inr (Some ''vpc-1'')"
    by (simp add: vpc_id_from_subnets_same example_modules_def)
  have "\<exists>rg. get_aws_rg example_modules ?self NoneContext = Inr (Some rg)"
    using get_aws_rg_builds [OF root paths vpc, of NoneContext] by blast
  moreover have "\<exists>rg. get_aws_rg example_modules ?self example_docker_context = Inr (Some rg)"
    using get_aws_rg_builds [OF root paths vpc, of example_docker_context] by blast
  moreover have "get_docker_rg example_modules example_self example_aws_context
                   = (None, example_self)"
    by (rule get_docker_rg_wrong_context) (simp add: example_aws_context_def)
  moreover have "get_k8s_rg Some example_modules example_self example_aws_context
                   = (None, example_self, example_aws_context)"
    by (rule get_k8s_rg_wrong_context) (simp add: example_aws_context_def)
  ultimately show ?thesis by blast
qed

text \<open>
  A builder leaves \<^verbatim>\<open>self\<close> as it was when the caller's collections are \<^verbatim>\<open>None\<close> or empty:
  the local lists and dicts are then fresh objects.
\<close>

lemma get_docker_rg_self_unchanged:
  assumes "\<not> is_same_object (container_volumes_docker (args self))"
    and "\<not> is_same_object (container_ports_docker (args self))"
  shows "snd (get_docker_rg m self docker_build_context) = self"
  using assms
  by (auto simp: get_docker_rg_def Let_def write_back_def
           split: build_context.splits option.splits)

lemma get_k8s_rg_self_unchanged:
  assumes "\<not> is_same_object (extra_secrets (args self))"
    and "\<not> is_same_object (extra_configmaps (args self))"
    and "\<not> is_same_object (extra_services (args self))"
    and "\<not> is_same_object (extra_deployments (args self))"
    and "\<not> is_same_object (extra_containers (args self))"
    and "\<not> is_same_object (extra_init_containers (args self))"
    and "\<not> is_same_object (extra_ports (args self))"
    and "\<not> is_same_object (extra_volumes (args self))"
  shows "fst (snd (get_k8s_rg create m self k8s_build_context)) = self"
  using assms
  by (auto simp: get_k8s_rg_def k8s_self_after_def write_back_def
           split: build_context.splits option.splits)

text \<open>
  Claim C3.  The builders do change the arguments when a caller's collection is non-empty.
  The Docker builder stores the convenience binding in the caller's
  \<^verbatim>\<open>container_ports_docker\<close>; the Kubernetes builder appends the generated config map to the
  caller's \<^verbatim>\<open>extra_configmaps\<close> and inserts the primary container into the caller's
  \<^verbatim>\<open>extra_containers\<close>, so that a second build of the same object yields a deployment with
  the primary container twice.
\<close>

theorem builders_change_args:
  "container_ports_docker
     (args (snd (get_docker_rg example_modules
                   (example_self\<lparr>args := default_args
                      \<lparr>open_container_port := True,
                       container_ports_docker := Some [(''2222/tcp'', PyInt 3333)]\<rparr>\<rparr>)
                   example_docker_context)))
     = Some [(''2222/tcp'', PyInt 3333), (''8080'', PyInt 8080)]
 \<and> (\<exists>cm. extra_configmaps
            (args (fst (snd (get_k8s_rg Some example_modules
                               (example_self\<lparr>args := default_args
                                  \<lparr>extra_configmaps := Some [example_configmap]\<rparr>\<rparr>)
                               example_k8s_context))))
            = Some [example_configmap, cm]
        \<and> ccm_cm_name cm = ''server-cm'')
 \<and> (\<exists>self' g d.
        fst (snd (get_k8s_rg Some example_modules
                    (example_self\<lparr>args := default_args
                       \<lparr>extra_containers := Some [example_container]\<rparr>\<rparr>)
                    example_k8s_context)) = self'
      \<and> map cc_container_name (or_empty (extra_containers (args self')))
          = [''server-container'', ''helper'']
      \<and> fst (get_k8s_rg Some example_modules self' example_k8s_context) = Some g
      \<and> krg_deployments g = Some [d]
      \<and> map cc_container_name (cd_containers d)
          = [''server-container'', ''server-container'', ''helper''])"
proof (intro conjI)
  let ?self = "example_self\<lparr>args := default_args
                      \<lparr>open_container_port := True,
                       container_ports_docker := Some [(''2222/tcp'', PyInt 3333)]\<rparr>\<rparr>"
  show "container_ports_docker
          (args (snd (get_docker_rg example_modules ?self example_docker_context)))
          = Some [(''2222/tcp'', PyInt 3333), (''8080'', PyInt 8080)]"
    by (simp add: get_docker_rg_def example_docker_context_def example_self_def Let_def
          docker_container_volumes_def default_args_def docker_container_ports_def
          or_empty_def write_back_def is_same_object_def str_int_8080)
next
  let ?self = "example_self\<lparr>args := default_args
                                  \<lparr>extra_configmaps := Some [example_configmap]\<rparr>\<rparr>"
  let ?ctx = "\<lparr> ctx_namespace = ''default'', ctx_service_account_name = None,
                ctx_labels = None \<rparr>"
  let ?p = "\<lparr> path_str = ''/home/user/ws'', stem = ''ws'' \<rparr>"
  have built: "fst (snd (get_k8s_rg Some example_modules ?self example_k8s_context))
                 = k8s_self_after example_modules ?self ?ctx ?p example_container_paths"
    by (simp add: get_k8s_rg_def example_k8s_context_def example_self_def)
  have "extra_configmaps
          (args (k8s_self_after example_modules ?self ?ctx ?p example_container_paths))
          = Some [example_configmap,
                  k8s_container_env_cm example_modules ?self ?ctx example_container_paths]"
    by (simp add: k8s_self_after_def write_back_def is_same_object_def k8s_config_maps_def
          or_empty_def)
  moreover have "ccm_cm_name
                   (k8s_container_env_cm example_modules ?self ?ctx example_container_paths)
                   = ''server-cm''"
    by (simp add: k8s_container_env_cm_def default_args_def example_self_def str_or_def)
  ultimately show "\<exists>cm. extra_configmaps
            (args (fst (snd (get_k8s_rg Some example_modules ?self example_k8s_context))))
            = Some [example_configmap, cm]
        \<and> ccm_cm_name cm = ''server-cm''"
    unfolding built by blast
next
  let ?self = "example_self\<lparr>args := default_args
                       \<lparr>extra_containers := Some [example_container]\<rparr>\<rparr>"
  let ?ctx = "\<lparr> ctx_namespace = ''default'', ctx_service_account_name = None,
                ctx_labels = None \<rparr>"
  let ?p = "\<lparr> path_str = ''/home/user/ws'', stem = ''ws'' \<rparr>"
  let ?self' = "k8s_self_after example_modules ?self ?ctx ?p example_container_paths"
  let ?g = "k8s_create_group example_modules ?self' ?ctx ?p example_container_paths"
  let ?d = "k8s_spark_deployment example_modules ?self' ?ctx ?p example_container_paths"
  have built: "fst (snd (get_k8s_rg Some example_modules ?self example_k8s_context)) = ?self'"
    by (simp add: get_k8s_rg_def example_k8s_context_def example_self_def)
  have nm: "\<not> mount_workspace (args ?self)" by (simp add: default_args_def)
  have extra: "extra_containers (args ?self')
                 = Some (k8s_containers example_modules ?self ?ctx ?p example_container_paths)"
    by (simp add: k8s_self_after_def write_back_def is_same_object_def)
  have names1: "map cc_container_name (or_empty (extra_containers (args ?self')))
                  = [''server-container'', ''helper'']"
    unfolding extra or_empty_def option.case k8s_container_names_no_mount [OF nm]
    by (simp add: example_self_def example_container_def)
  have root': "workspace_root_path ?self' = Some ?p"
    by (simp add: k8s_self_after_def example_self_def)
  have paths': "get_container_paths ?self' None = Some example_container_paths"
    by (simp add: k8s_self_after_def example_self_def)
  have nm': "\<not> mount_workspace (args ?self')"
    by (simp add: k8s_self_after_def default_args_def)
  have second: "fst (get_k8s_rg Some example_modules ?self' example_k8s_context) = Some ?g"
    using get_k8s_rg_built(1) [OF root' paths', of Some example_modules ?ctx]
    by (simp add: example_k8s_context_def)
  have deps: "krg_deployments ?g = Some [?d]"
    by (simp add: krg_deployments_create_group k8s_self_after_def write_back_def
          is_same_object_def or_empty_def default_args_def)
  have "map cc_container_name (cd_containers ?d)
          = get_container_name ?self'
            # map cc_container_name (or_empty (extra_containers (args ?self')))"
    by (simp add: k8s_spark_deployment_def k8s_container_names_no_mount [OF nm'])
  then have names2: "map cc_container_name (cd_containers ?d)
          = [''server-container'', ''server-container'', ''helper'']"
    unfolding names1 by (simp add: k8s_self_after_def example_self_def)
  from built names1 second deps names2
  show "\<exists>self' g d.
        fst (snd (get_k8s_rg Some example_modules ?self example_k8s_context)) = self'
      \<and> map cc_container_name (or_empty (extra_containers (args self')))
          = [''server-container'', ''helper'']
      \<and> fst (get_k8s_rg Some example_modules self' example_k8s_context) = Some g
      \<and> krg_deployments g = Some [d]
      \<and> map cc_container_name (cd_containers d)
          = [''server-container'', ''server-container'', ''helper'']"
    by (intro exI conjI) assumption+
qed

end
